theory Spec2Isabelle
  imports Complex_Main "HOL-Library.Word"
begin

unbundle bit_operations_syntax

section \<open>JavaScript values used by the transfer code\<close>

text \<open>
  A JavaScript \<open>number\<close> is either finite, one of the two infinities, or NaN. The finite
  values are modelled as exact rationals (the decimal quantity the caller means): the
  arithmetic of the code on them (\<open>amount * 10 ** 6\<close>, \<open>amountFormatted + 0.01\<close>) is
  carried out exactly, without the rounding of IEEE-754 doubles.
\<close>

datatype number = Fin rat | PosInf | NegInf | NaN

text \<open>\<open>Number.isFinite(x)\<close>.\<close>

fun Number_isFinite :: "number \<Rightarrow> bool" where
  "Number_isFinite (Fin _) = True"
| "Number_isFinite _ = False"

text \<open>The comparisons \<open>x <= y\<close>, \<open>x < y\<close> and \<open>x >= y\<close>: false as soon as one side is NaN.\<close>

fun num_le :: "number \<Rightarrow> number \<Rightarrow> bool" where
  "num_le NaN _ = False"
| "num_le _ NaN = False"
| "num_le NegInf _ = True"
| "num_le _ PosInf = True"
| "num_le (Fin a) (Fin b) = (a \<le> b)"
| "num_le _ _ = False"

fun num_lt :: "number \<Rightarrow> number \<Rightarrow> bool" where
  "num_lt NaN _ = False"
| "num_lt _ NaN = False"
| "num_lt (Fin a) (Fin b) = (a < b)"
| "num_lt NegInf NegInf = False"
| "num_lt PosInf _ = False"
| "num_lt NegInf _ = True"
| "num_lt _ PosInf = True"
| "num_lt _ _ = False"

definition num_ge :: "number \<Rightarrow> number \<Rightarrow> bool" where
  "num_ge x y = num_le y x"

text \<open>
  \<open>Math.round\<close> returns the integer closest to its argument, the larger one on a tie;
  \<open>Math.ceil\<close> the least integer not below it. \<open>BigInt\<close> of an integral number is that
  integer.
\<close>

definition Math_round :: "rat \<Rightarrow> int" where
  "Math_round x = \<lfloor>x + 1 / 2\<rfloor>"

definition Math_ceil :: "rat \<Rightarrow> int" where
  "Math_ceil x = \<lceil>x\<rceil>"

text \<open>
  A thrown value: an \<open>Error\<close> with its message and its \<open>code\<close> property (\<open>None\<close> when the
  error has none, as for every \<open>new Error(msg)\<close> of this repository). Two messages
  interpolate numbers that are not integers and are kept structured:
  \<^item> \<open>TimeoutError need chain have secs\<close> is the error of the Balance Waiter,
    \<^verbatim>\<open>Timeout waiting for Gateway balance: need ${need} USDC on ${chain}, have ${have.toFixed(6)} after ${secs}s\<close>;
  \<^item> \<open>DepositFailed chain err\<close> is the error of the orchestrator's recovery path,
    \<^verbatim>\<open>Failed to deposit on ${chain}: ${err}. Please deposit manually: npm run deposit -- ${chain}\<close>.
\<close>

datatype error =
    Error string "string option"
  | TimeoutError number string number nat
  | DepositFailed string error

fun error_code :: "error \<Rightarrow> string option" where
  "error_code (Error _ c) = c"
| "error_code _ = None"

type_synonym 'a result = "error + 'a"

subsection \<open>Strings\<close>

definition toLowerChar :: "char \<Rightarrow> char" where
  "toLowerChar c =
     (let n = (of_char c :: nat)
      in if 65 \<le> n \<and> n \<le> 90 then char_of (n + 32) else c)"

definition toLowerCase :: "string \<Rightarrow> string" where
  "toLowerCase s = map toLowerChar s"

text \<open>\<open>xs.join(sep)\<close>.\<close>

fun join :: "string \<Rightarrow> string list \<Rightarrow> string" where
  "join sep [] = []"
| "join sep [x] = x"
| "join sep (x # y # ys) = x @ sep @ join sep (y # ys)"

text \<open>The decimal rendering of a non-negative integer in a template string.\<close>

definition digit_char :: "nat \<Rightarrow> char" where
  "digit_char d = char_of (48 + d)"

fun string_of_nat :: "nat \<Rightarrow> string" where
  "string_of_nat n =
     (if n < 10 then [digit_char n] else string_of_nat (n div 10) @ [digit_char (n mod 10)])"

declare string_of_nat.simps [simp del]

section \<open>Byte strings of the ethers library\<close>

text \<open>
  \<open>addressToBytes32\<close> calls \<open>ethers.zeroPadValue\<close>, which is library code: \<open>getBytes\<close>
  accepts a string matching \<^verbatim>\<open>/^0x([0-9a-f][0-9a-f])*$/i\<close> and reads each pair of digits as
  a byte, \<open>hexlify\<close> writes each byte as two digits of \<^verbatim>\<open>0123456789abcdef\<close> after \<^verbatim>\<open>0x\<close>,
  and \<open>zeroPadValue(data, n)\<close> puts the bytes of \<open>data\<close> at the right end of \<open>n\<close> zero
  bytes, failing with \<open>BUFFER_OVERRUN\<close> when there are more than \<open>n\<close>.
\<close>

type_synonym byte = "8 word"

definition hex_val :: "char \<Rightarrow> nat option" where
  "hex_val c =
     (let n = (of_char c :: nat)
      in if 48 \<le> n \<and> n \<le> 57 then Some (n - 48)
         else if 97 \<le> n \<and> n \<le> 102 then Some (n - 87)
         else if 65 \<le> n \<and> n \<le> 70 then Some (n - 55)
         else None)"

definition HexCharacters :: string where
  "HexCharacters = ''0123456789abcdef''"

definition hex_char :: "nat \<Rightarrow> char" where
  "hex_char n = HexCharacters ! n"

text \<open>\<open>parseInt(pair, 16)\<close> stored into a \<open>Uint8Array\<close>.\<close>

definition byte_of_nibbles :: "nat \<Rightarrow> nat \<Rightarrow> byte" where
  "byte_of_nibbles h l = of_nat (16 * h + l)"

fun parse_hex_pairs :: "string \<Rightarrow> byte list option" where
  "parse_hex_pairs [] = Some []"
| "parse_hex_pairs [c] = None"
| "parse_hex_pairs (c1 # c2 # cs) =
     (case hex_val c1 of
        None \<Rightarrow> None
      | Some h \<Rightarrow>
          (case hex_val c2 of
             None \<Rightarrow> None
           | Some l \<Rightarrow>
               (case parse_hex_pairs cs of
                  None \<Rightarrow> None
                | Some bs \<Rightarrow> Some (byte_of_nibbles h l # bs))))"

definition invalid_BytesLike :: error where
  "invalid_BytesLike = Error ''invalid BytesLike value'' (Some ''INVALID_ARGUMENT'')"

definition getBytes :: "string \<Rightarrow> byte list result" where
  "getBytes s =
     (case s of
        c0 # cx # ds \<Rightarrow>
          if c0 = CHR ''0'' \<and> (cx = CHR ''x'' \<or> cx = CHR ''X'')
          then (case parse_hex_pairs ds of Some bs \<Rightarrow> Inr bs | None \<Rightarrow> Inl invalid_BytesLike)
          else Inl invalid_BytesLike
      | _ \<Rightarrow> Inl invalid_BytesLike)"

definition hexlify_byte :: "byte \<Rightarrow> string" where
  "hexlify_byte v =
     [hex_char (unat (drop_bit 4 (v AND 0xF0))), hex_char (unat (v AND 0x0F))]"

definition hexlify :: "byte list \<Rightarrow> string" where
  "hexlify bs = ''0x'' @ concat (map hexlify_byte bs)"

definition zeroPadValue :: "string \<Rightarrow> nat \<Rightarrow> string result" where
  "zeroPadValue data n =
     (case getBytes data of
        Inl e \<Rightarrow> Inl e
      | Inr bs \<Rightarrow>
          if n < length bs
          then Inl (Error ''padding exceeds data length'' (Some ''BUFFER_OVERRUN''))
          else Inr (hexlify (replicate (n - length bs) 0 @ bs)))"

section \<open>Chain Registry\<close>

record chain_info =
  chain_name :: string
  chain_id :: nat
  chain_rpcUrl :: string

record chain_config =
  chain :: chain_info
  usdcAddress :: string
  domainId :: nat

text \<open>The native-currency metadata and the \<open>rpcUrls\<close> copy of \<open>chainWithRpc\<close> serve display only.\<close>

definition chainWithRpc :: "string \<Rightarrow> nat \<Rightarrow> string \<Rightarrow> chain_info" where
  "chainWithRpc name ident rpcUrl =
     \<lparr>chain_name = name, chain_id = ident, chain_rpcUrl = rpcUrl\<rparr>"

definition GATEWAY_WALLET_ADDRESS :: string where
  "GATEWAY_WALLET_ADDRESS = ''0x0077777d7EBA4688BDeF3E311b846F25870A19B9''"

definition GATEWAY_MINTER_ADDRESS :: string where
  "GATEWAY_MINTER_ADDRESS = ''0x0022222ABE238Cc2C7Bb1f21003F0a260052475B''"

text \<open>The object \<open>chainConfigs\<close>, as the list of its entries in the order of the source.\<close>

definition chainConfigs :: "(string \<times> chain_config) list" where
  "chainConfigs =
     [(''sepolia'',
         \<lparr>chain = chainWithRpc ''Sepolia'' 11155111 ''https://rpc.sepolia.org'',
          usdcAddress = ''0x1c7D4B196Cb0C7B01d743Fbc6116a902379C7238'', domainId = 0\<rparr>),
      (''baseSepolia'',
         \<lparr>chain = chainWithRpc ''Base Sepolia'' 84532 ''https://sepolia.base.org'',
          usdcAddress = ''0x036CbD53842c5426634e7929541eC2318f3dCF7e'', domainId = 6\<rparr>),
      (''avalancheFuji'',
         \<lparr>chain = chainWithRpc ''Avalanche Fuji'' 43113
            ''https://api.avax-test.network/ext/bc/C/rpc'',
          usdcAddress = ''0x5425890298aed601595a70ab815c96711a31bc65'', domainId = 1\<rparr>),
      (''arcTestnet'',
         \<lparr>chain = chainWithRpc ''Arc Testnet'' 5042002 ''https://rpc.testnet.arc.network'',
          usdcAddress = ''0x3600000000000000000000000000000000000000'', domainId = 26\<rparr>),
      (''hyperliquidEvmTestnet'',
         \<lparr>chain = chainWithRpc ''Hyperliquid EVM Testnet'' 998
            ''https://api.hyperliquid-testnet.xyz/evm'',
          usdcAddress = ''0x2B3370eE501B4a559b57D449569354196457D8Ab'', domainId = 19\<rparr>),
      (''seiTestnet'',
         \<lparr>chain = chainWithRpc ''Sei Testnet'' 713715 ''https://evm-rpc-testnet.sei-apis.com'',
          usdcAddress = ''0x4fCF1784B31630811181f670Aea7A7bEF803eaED'', domainId = 16\<rparr>),
      (''sonicTestnet'',
         \<lparr>chain = chainWithRpc ''Sonic Testnet'' 64165 ''https://rpc.testnet.soniclabs.com'',
          usdcAddress = ''0x0BA304580ee7c9a980CF72e55f5Ed2E9fd30Bc51'', domainId = 13\<rparr>),
      (''worldchainSepolia'',
         \<lparr>chain = chainWithRpc ''Worldchain Sepolia'' 4801
            ''https://worldchain-sepolia.g.alchemy.com/public'',
          usdcAddress = ''0x66145f38cBAC35Ca6F1Dfb4914dF98F1614aeA88'', domainId = 14\<rparr>)]"

text \<open>
  \<open>chainConfigs[key]\<close> is \<open>undefined\<close> for a key that is not a chain key, and reading a
  property of \<open>undefined\<close> throws a \<open>TypeError\<close>.
\<close>

definition TypeError :: error where
  "TypeError = Error ''TypeError'' None"

definition SyntaxError :: error where
  "SyntaxError = Error ''SyntaxError'' None"

definition RangeError :: error where
  "RangeError = Error ''RangeError'' None"

definition chainConfig :: "string \<Rightarrow> chain_config result" where
  "chainConfig key =
     (case map_of chainConfigs key of None \<Rightarrow> Inl TypeError | Some c \<Rightarrow> Inr c)"

definition ARC_CHAIN :: string where
  "ARC_CHAIN = ''arcTestnet''"

definition validChains :: "string list" where
  "validChains = map fst chainConfigs"

definition validEvmChains :: "string list" where
  "validEvmChains = filter (\<lambda>c. c \<noteq> ARC_CHAIN) validChains"

definition USDC_DECIMALS :: nat where
  "USDC_DECIMALS = 6"

section \<open>Burn Intent Builder\<close>

definition MAX_FEE :: int where
  "MAX_FEE = 2010000"

definition MaxUint256 :: int where
  "MaxUint256 = 2 ^ 256 - 1"

definition ZeroAddress :: string where
  "ZeroAddress = ''0x0000000000000000000000000000000000000000''"

record eip712_domain =
  domain_name :: string
  domain_version :: string

definition domain :: eip712_domain where
  "domain = \<lparr>domain_name = ''GatewayWallet'', domain_version = ''1''\<rparr>"

type_synonym schema = "(string \<times> string) list"

definition TransferSpec :: schema where
  "TransferSpec =
     [(''version'', ''uint32''),
      (''sourceDomain'', ''uint32''),
      (''destinationDomain'', ''uint32''),
      (''sourceContract'', ''bytes32''),
      (''destinationContract'', ''bytes32''),
      (''sourceToken'', ''bytes32''),
      (''destinationToken'', ''bytes32''),
      (''sourceDepositor'', ''bytes32''),
      (''destinationRecipient'', ''bytes32''),
      (''sourceSigner'', ''bytes32''),
      (''destinationCaller'', ''bytes32''),
      (''value'', ''uint256''),
      (''salt'', ''bytes32''),
      (''hookData'', ''bytes'')]"

definition BurnIntent :: schema where
  "BurnIntent =
     [(''maxBlockHeight'', ''uint256''),
      (''maxFee'', ''uint256''),
      (''spec'', ''TransferSpec'')]"

record transfer_spec =
  version :: nat
  sourceDomain :: nat
  destinationDomain :: nat
  sourceContract :: string
  destinationContract :: string
  sourceToken :: string
  destinationToken :: string
  sourceDepositor :: string
  destinationRecipient :: string
  sourceSigner :: string
  destinationCaller :: string
  "value" :: int
  salt :: string
  hookData :: string

record burn_intent =
  maxBlockHeight :: int
  maxFee :: int
  spec :: transfer_spec

record typed_data =
  types :: "(string \<times> schema) list"
  typed_domain :: eip712_domain
  primaryType :: string
  message :: burn_intent

definition addressToBytes32 :: "string \<Rightarrow> string result" where
  "addressToBytes32 address = zeroPadValue (toLowerCase address) 32"

text \<open>
  \<open>createBurnIntent\<close>; the last argument is the value of \<open>randomBytes(32)\<close>, whose
  \<open>toString("hex")\<close> is its lower-case hexadecimal rendering.
\<close>

definition createBurnIntent ::
  "string \<Rightarrow> string \<Rightarrow> int \<Rightarrow> string \<Rightarrow> string option \<Rightarrow> byte list \<Rightarrow> burn_intent result" where
  "createBurnIntent sourceChain destChain transferValue depositorAddress recipientAddress
       randomBytes32 =
     (case chainConfig sourceChain of
        Inl e \<Rightarrow> Inl e
      | Inr sourceConfig \<Rightarrow>
          (case chainConfig destChain of
             Inl e \<Rightarrow> Inl e
           | Inr destConfig \<Rightarrow>
               Inr \<lparr>maxBlockHeight = MaxUint256,
                    maxFee = MAX_FEE,
                    spec =
                      \<lparr>version = 1,
                       sourceDomain = domainId sourceConfig,
                       destinationDomain = domainId destConfig,
                       sourceContract = GATEWAY_WALLET_ADDRESS,
                       destinationContract = GATEWAY_MINTER_ADDRESS,
                       sourceToken = usdcAddress sourceConfig,
                       destinationToken = usdcAddress destConfig,
                       sourceDepositor = depositorAddress,
                       destinationRecipient =
                         (case recipientAddress of None \<Rightarrow> depositorAddress | Some r \<Rightarrow> r),
                       sourceSigner = depositorAddress,
                       destinationCaller = ZeroAddress,
                       value = transferValue,
                       salt = hexlify randomBytes32,
                       hookData = ''0x''\<rparr>\<rparr>))"

text \<open>Sequencing of computations that may throw.\<close>

definition bind_result :: "'a result \<Rightarrow> ('a \<Rightarrow> 'b result) \<Rightarrow> 'b result" where
  "bind_result r f = (case r of Inl e \<Rightarrow> Inl e | Inr x \<Rightarrow> f x)"

definition burnIntentTypedData :: "burn_intent \<Rightarrow> typed_data result" where
  "burnIntentTypedData burnIntent =
     bind_result (addressToBytes32 (sourceContract (spec burnIntent))) (\<lambda>sc.
     bind_result (addressToBytes32 (destinationContract (spec burnIntent))) (\<lambda>dc.
     bind_result (addressToBytes32 (sourceToken (spec burnIntent))) (\<lambda>st.
     bind_result (addressToBytes32 (destinationToken (spec burnIntent))) (\<lambda>dt.
     bind_result (addressToBytes32 (sourceDepositor (spec burnIntent))) (\<lambda>sd.
     bind_result (addressToBytes32 (destinationRecipient (spec burnIntent))) (\<lambda>dr.
     bind_result (addressToBytes32 (sourceSigner (spec burnIntent))) (\<lambda>ss.
     bind_result (addressToBytes32 (destinationCaller (spec burnIntent))) (\<lambda>dcl.
       Inr \<lparr>types = [(''TransferSpec'', TransferSpec), (''BurnIntent'', BurnIntent)],
            typed_domain = domain,
            primaryType = ''BurnIntent'',
            message =
              burnIntent\<lparr>spec :=
                (spec burnIntent)
                  \<lparr>sourceContract := sc,
                   destinationContract := dc,
                   sourceToken := st,
                   destinationToken := dt,
                   sourceDepositor := sd,
                   destinationRecipient := dr,
                   sourceSigner := ss,
                   destinationCaller := dcl\<rparr>\<rparr>\<rparr>))))))))"

section \<open>Effects and collaborators\<close>

text \<open>
  Every interaction with the network, a chain, the wallet's key or the clock is recorded
  in a trace, in the order in which the code performs it. Console output is not modelled.
  \<^item> \<open>FetchBalances sources\<close>: \<open>POST /v1/balances\<close> with the \<open>(domain, depositor)\<close> sources;
  \<^item> \<open>LogWalletBalances source dest\<close>: the RPC reads of \<open>logWalletBalances\<close>;
  \<^item> \<open>DepositToGateway chains amount\<close>: the call of the Depositor \<open>depositToGateway\<close>;
  \<^item> \<open>WaitForGatewayBalance chain required interval timeout\<close>: the call of the Balance
    Waiter, followed by the effects of its polls;
  \<^item> \<open>Sleep ms\<close>: the \<open>setTimeout\<close> between two polls;
  \<^item> \<open>SignTypedData td\<close>: \<open>wallet.signTypedData\<close> on the burn intent;
  \<^item> \<open>FetchTransfer intent signature\<close>: \<open>POST /v1/transfer\<close> with the one signed intent;
  \<^item> \<open>GatewayMint chain attestation signature\<close>: the \<open>gatewayMint\<close> transaction sent to
    the minter contract on the destination chain;
  \<^item> \<open>WaitMint\<close>: \<open>mintTx.wait()\<close>.
\<close>

datatype effect =
    FetchBalances "(nat \<times> string) list"
  | LogWalletBalances string string
  | DepositToGateway "string list" int
  | WaitForGatewayBalance string number nat nat
  | Sleep nat
  | SignTypedData typed_data
  | FetchTransfer burn_intent string
  | GatewayMint string string string
  | WaitMint

text \<open>
  A run: \<open>None\<close> when the code never returns, otherwise the trace and either the thrown
  error or the returned value.
\<close>

type_synonym 'a run = "(effect list \<times> 'a result) option"

definition return :: "'a \<Rightarrow> 'a run" where
  "return x = Some ([], Inr x)"

definition throw :: "error \<Rightarrow> 'a run" where
  "throw e = Some ([], Inl e)"

definition perform :: "effect \<Rightarrow> 'a result \<Rightarrow> 'a run" where
  "perform eff outcome = Some ([eff], outcome)"

definition lift :: "'a result \<Rightarrow> 'a run" where
  "lift r = Some ([], r)"

definition bind_run :: "'a run \<Rightarrow> ('a \<Rightarrow> 'b run) \<Rightarrow> 'b run" where
  "bind_run m f =
     (case m of
        None \<Rightarrow> None
      | Some (t, Inl e) \<Rightarrow> Some (t, Inl e)
      | Some (t, Inr x) \<Rightarrow>
          (case f x of None \<Rightarrow> None | Some (t', r) \<Rightarrow> Some (t @ t', r)))"

text \<open>\<open>try { m } catch (err) { h(err) }\<close>.\<close>

definition catch_run :: "'a run \<Rightarrow> (error \<Rightarrow> 'a run) \<Rightarrow> 'a run" where
  "catch_run m h =
     (case m of
        None \<Rightarrow> None
      | Some (t, Inr x) \<Rightarrow> Some (t, Inr x)
      | Some (t, Inl e) \<Rightarrow>
          (case h e of None \<Rightarrow> None | Some (t', r) \<Rightarrow> Some (t @ t', r)))"

subsection \<open>The Gateway balance endpoint\<close>

text \<open>
  An item of the \<open>balances\<close> array: its domain, and the number that \<open>parseFloat\<close> reads
  from its \<open>balance\<close> string (\<open>None\<close> when the item has no \<open>balance\<close>).
\<close>

record balance_item =
  item_domain :: nat
  item_balance :: "number option"

datatype balances_field = Absent | NotArray | Balances "balance_item list"

text \<open>
  The body of a response, as \<open>res.json()\<close> reads it: not JSON (the call rejects), the
  value \<open>null\<close>, or an object with its \<open>balances\<close> property.
\<close>

datatype balances_json = JsonInvalid | JsonNull | JsonObject balances_field

record balances_response =
  status :: nat
  body :: balances_json
  stringified :: string

definition response_ok :: "nat \<Rightarrow> bool" where
  "response_ok st = (200 \<le> st \<and> st \<le> 299)"

section \<open>Balance Inspector\<close>

record VaultBalanceEntry =
  entry_chain :: string
  entry_balance :: number

fun domainEntries_of :: "string list \<Rightarrow> (string \<times> nat) list result" where
  "domainEntries_of [] = Inr []"
| "domainEntries_of (key # keys) =
     bind_result (chainConfig key) (\<lambda>c.
     bind_result (domainEntries_of keys) (\<lambda>rest. Inr ((key, domainId c) # rest)))"

text \<open>\<open>new Map(pairs).get(d)\<close>: the last pair with key \<open>d\<close> wins.\<close>

definition domainToChain :: "(string \<times> nat) list \<Rightarrow> nat \<Rightarrow> string option" where
  "domainToChain domainEntries d = map_of (rev (map (\<lambda>(k, dom). (dom, k)) domainEntries)) d"

definition vault_entry :: "(string \<times> nat) list \<Rightarrow> balance_item \<Rightarrow> VaultBalanceEntry" where
  "vault_entry domainEntries b =
     \<lparr>entry_chain =
        (case domainToChain domainEntries (item_domain b) of
           Some k \<Rightarrow> k
         | None \<Rightarrow> ''Domain '' @ string_of_nat (item_domain b)),
      entry_balance = (case item_balance b of None \<Rightarrow> Fin 0 | Some x \<Rightarrow> x)\<rparr>"

text \<open>
  \<open>getVaultBalances({chains})\<close> for the account \<open>acct\<close>, given the outcome of its one
  \<open>fetch\<close> (\<open>Inl\<close> when the fetch itself rejects).
\<close>

definition getVaultBalances ::
  "string \<Rightarrow> string list option \<Rightarrow> balances_response result \<Rightarrow> VaultBalanceEntry list run" where
  "getVaultBalances acct chainKeys fetched =
     bind_run
       (lift (case chainKeys of
                Some keys \<Rightarrow> domainEntries_of keys
              | None \<Rightarrow> Inr (map (\<lambda>(k, c). (k, domainId c)) chainConfigs)))
       (\<lambda>domainEntries.
     bind_run (perform (FetchBalances (map (\<lambda>(k, d). (d, acct)) domainEntries)) fetched)
       (\<lambda>res.
          if body res = JsonInvalid then throw SyntaxError
          else if \<not> response_ok (status res) then
            throw (Error (''Gateway API '' @ string_of_nat (status res) @ '': '' @ stringified res)
                     None)
          else
            (case body res of
               JsonInvalid \<Rightarrow> throw SyntaxError
             | JsonNull \<Rightarrow> throw TypeError
             | JsonObject (Balances balances) \<Rightarrow>
                 return (map (vault_entry domainEntries) balances)
             | JsonObject _ \<Rightarrow> throw (Error ''API did not return a balances array'' None))))"

section \<open>Balance Waiter\<close>

record WaitForGatewayBalanceOptions =
  pollIntervalMs :: "nat option"
  timeoutMs :: "nat option"

text \<open>
  The \<open>i\<close>-th poll of the waiter: the time its \<open>getVaultBalances\<close> takes, in
  milliseconds, and the outcome of the fetch. The clock advances by that latency during a
  poll and by the interval during a sleep, and by nothing else.
\<close>

record poll =
  latency :: nat
  response :: "balances_response result"

definition observed_balance :: "string \<Rightarrow> VaultBalanceEntry list \<Rightarrow> number" where
  "observed_balance chn entries =
     (case find (\<lambda>e. entry_chain e = chn) entries of
        None \<Rightarrow> Fin 0
      | Some entry \<Rightarrow> entry_balance entry)"

text \<open>
  The body of \<open>while (true)\<close>, entered for the \<open>i\<close>-th time \<open>t\<close> milliseconds after
  \<open>start\<close>, with the trace \<open>acc\<close> so far.
\<close>

partial_function (option) wait_loop ::
  "string \<Rightarrow> string \<Rightarrow> number \<Rightarrow> nat \<Rightarrow> nat \<Rightarrow> (nat \<Rightarrow> poll) \<Rightarrow> nat \<Rightarrow> nat \<Rightarrow> effect list \<Rightarrow>
     unit run" where
  "wait_loop acct chn requiredBalance interval timeout polls i t acc =
     (case getVaultBalances acct (Some [chn]) (response (polls i)) of
        None \<Rightarrow> None
      | Some (effs, Inl e) \<Rightarrow> Some (acc @ effs, Inl e)
      | Some (effs, Inr entries) \<Rightarrow>
          if num_ge (observed_balance chn entries) requiredBalance
          then Some (acc @ effs, Inr ())
          else if timeout \<le> t + latency (polls i)
          then Some (acc @ effs,
                  Inl (TimeoutError requiredBalance chn (observed_balance chn entries)
                         (nat (Math_round (of_nat (t + latency (polls i)) / 1000)))))
          else wait_loop acct chn requiredBalance interval timeout polls (Suc i)
                 (t + latency (polls i) + interval) (acc @ effs @ [Sleep interval]))"

definition waitForGatewayBalance ::
  "string \<Rightarrow> (nat \<Rightarrow> poll) \<Rightarrow> string \<Rightarrow> number \<Rightarrow> WaitForGatewayBalanceOptions \<Rightarrow> unit run" where
  "waitForGatewayBalance acct polls chn requiredBalance options =
     (let interval = (case pollIntervalMs options of None \<Rightarrow> 30000 | Some ms \<Rightarrow> ms);
          timeout = (case timeoutMs options of None \<Rightarrow> 25 * 60 * 1000 | Some ms \<Rightarrow> ms)
      in wait_loop acct chn requiredBalance interval timeout polls 0 0
           [WaitForGatewayBalance chn requiredBalance interval timeout])"


section \<open>Transfer Orchestrator\<close>

record UnifiedTransferOptions =
  isEvmToArc :: bool
  chainToTransfer :: string
  amount :: number

text \<open>
  The response of \<open>POST /v1/transfer\<close>: its status, what \<open>response.text()\<close> returns and
  what \<open>response.json()\<close> reads (not JSON, \<open>null\<close>, or an object with its \<open>attestation\<close>
  and \<open>signature\<close> properties, \<open>None\<close> for an absent one).
\<close>

datatype transfer_json =
    TransferJsonInvalid
  | TransferJsonNull
  | TransferJsonObject "string option" "string option"

record transfer_response =
  transfer_status :: nat
  transfer_text :: string
  transfer_json :: transfer_json

text \<open>
  What the collaborators answer during one transfer, one field for each place where the
  code calls one: the wallet (\<open>account\<close>, \<open>signTypedData\<close>), \<open>randomBytes(32)\<close>, the
  balance endpoint (for the two displays, for the balance check and for the polls of the
  waiter), the RPC reads of \<open>logWalletBalances\<close>, the Depositor \<open>depositToGateway\<close>, the
  transfer endpoint, and the minter contract (\<open>gatewayMint\<close> returns the transaction hash,
  then \<open>mintTx.wait()\<close>).
\<close>

record env =
  account :: string
  randomBytes32 :: "byte list"
  vaultBalancesBefore :: "balances_response result"
  walletBalancesBefore :: "unit result"
  balancesFetch :: "balances_response result"
  depositOutcome :: "unit result"
  waiterPolls :: "nat \<Rightarrow> poll"
  signTypedData :: "typed_data \<Rightarrow> string result"
  transferFetch :: "transfer_response result"
  gatewayMintOutcome :: "string result"
  mintWaitOutcome :: "unit result"
  vaultBalancesAfter :: "balances_response result"
  walletBalancesAfter :: "unit result"

text \<open>\<open>BigInt(Math.round(amount * 10 ** USDC_DECIMALS))\<close>; \<open>BigInt\<close> throws on NaN and infinities.\<close>

definition transferValueOf :: "number \<Rightarrow> int result" where
  "transferValueOf amt =
     (case amt of
        Fin a \<Rightarrow> Inr (Math_round (a * 10 ^ USDC_DECIMALS))
      | _ \<Rightarrow> Inl RangeError)"

text \<open>
  \<open>balanceData?.balances?.find(b => b.domain === domainId)\<close>, then
  \<open>sourceBalance ? parseFloat(sourceBalance.balance) : 0\<close>.
\<close>

definition available_balance :: "nat \<Rightarrow> balances_json \<Rightarrow> number result" where
  "available_balance d json =
     (case json of
        JsonInvalid \<Rightarrow> Inl SyntaxError
      | JsonNull \<Rightarrow> Inr (Fin 0)
      | JsonObject Absent \<Rightarrow> Inr (Fin 0)
      | JsonObject NotArray \<Rightarrow> Inl TypeError
      | JsonObject (Balances balances) \<Rightarrow>
          (case find (\<lambda>b. item_domain b = d) balances of
             None \<Rightarrow> Inr (Fin 0)
           | Some sourceBalance \<Rightarrow>
               Inr (case item_balance sourceBalance of None \<Rightarrow> NaN | Some x \<Rightarrow> x)))"

text \<open>\<open>Number(ethers.formatUnits(transferValue, USDC_DECIMALS)) + 0.01\<close>.\<close>

definition required_balance :: "int \<Rightarrow> rat" where
  "required_balance transferValue = of_int transferValue / 10 ^ USDC_DECIMALS + 1 / 100"

text \<open>Step 1 of the source: check the unified Gateway balance on the source chain.\<close>

definition ensureGatewayBalance :: "env \<Rightarrow> string \<Rightarrow> chain_config \<Rightarrow> int \<Rightarrow> unit run" where
  "ensureGatewayBalance env sourceChain sourceConfig transferValue =
     bind_run (perform (FetchBalances [(domainId sourceConfig, account env)]) (balancesFetch env))
       (\<lambda>balanceRes.
     bind_run (lift (available_balance (domainId sourceConfig) (body balanceRes)))
       (\<lambda>available.
          if num_lt available (Fin (required_balance transferValue)) then
            catch_run
              (bind_run
                 (perform
                    (DepositToGateway [sourceChain]
                       (Math_ceil (required_balance transferValue * 10 ^ 6)))
                    (depositOutcome env))
                 (\<lambda>_. waitForGatewayBalance (account env) (waiterPolls env) sourceChain
                         (Fin (required_balance transferValue))
                         \<lparr>pollIntervalMs = Some 30000, timeoutMs = Some (25 * 60 * 1000)\<rparr>))
              (\<lambda>err. throw (DepositFailed sourceChain err))
          else return ()))"

text \<open>Step 2 of the source: create and sign the burn intent.\<close>

definition signBurnIntent :: "env \<Rightarrow> string \<Rightarrow> string \<Rightarrow> int \<Rightarrow> (typed_data \<times> string) run" where
  "signBurnIntent env sourceChain destChain transferValue =
     bind_run
       (lift (createBurnIntent sourceChain destChain transferValue (account env) None
                (randomBytes32 env)))
       (\<lambda>intent.
     bind_run (lift (burnIntentTypedData intent))
       (\<lambda>typedData.
     bind_run (perform (SignTypedData typedData) (signTypedData env typedData))
       (\<lambda>signature. return (typedData, signature))))"

text \<open>Step 3 of the source: the attestation and the operator signature of the Gateway API.\<close>

definition missing_attestation :: error where
  "missing_attestation = Error ''Missing attestation or signature in response'' None"

definition requestAttestation :: "env \<Rightarrow> typed_data \<Rightarrow> string \<Rightarrow> (string \<times> string) run" where
  "requestAttestation env typedData signature =
     bind_run (perform (FetchTransfer (message typedData) signature) (transferFetch env))
       (\<lambda>response.
          if \<not> response_ok (transfer_status response) then
            throw (Error (''Gateway API error: '' @ string_of_nat (transfer_status response)
                            @ '' '' @ transfer_text response) None)
          else
            (case transfer_json response of
               TransferJsonInvalid \<Rightarrow> throw SyntaxError
             | TransferJsonNull \<Rightarrow> throw missing_attestation
             | TransferJsonObject (Some attestation) (Some operatorSig) \<Rightarrow>
                 if attestation = [] \<or> operatorSig = [] then throw missing_attestation
                 else return (attestation, operatorSig)
             | TransferJsonObject _ _ \<Rightarrow> throw missing_attestation))"

text \<open>Step 4 of the source: mint on the destination chain.\<close>

definition insufficient_gas :: "string \<Rightarrow> error" where
  "insufficient_gas destChain =
     Error (''Insufficient native token on '' @ destChain @ '' to pay for gas. '' @
            ''Your burn/attestation succeeded; you need a small amount of testnet native token on the destination chain to complete the mint.'')
       None"

definition mintOnDestination :: "env \<Rightarrow> string \<Rightarrow> string \<Rightarrow> string \<Rightarrow> string \<Rightarrow> unit run" where
  "mintOnDestination env sourceChain destChain attestation operatorSig =
     catch_run
       (bind_run (perform (GatewayMint destChain attestation operatorSig) (gatewayMintOutcome env))
          (\<lambda>mintTx.
        bind_run (perform WaitMint (mintWaitOutcome env))
          (\<lambda>_.
        bind_run
          (getVaultBalances (account env) (Some [sourceChain, destChain]) (vaultBalancesAfter env))
          (\<lambda>_. perform (LogWalletBalances sourceChain destChain) (walletBalancesAfter env)))))
       (\<lambda>err.
          if error_code err = Some ''INSUFFICIENT_FUNDS'' then throw (insufficient_gas destChain)
          else throw err)"

text \<open>
  \<open>unifiedTransfer\<close>. The two lookups in \<open>chainConfigs\<close> cannot fail once the chain has
  passed the validation.
\<close>

definition unifiedTransfer :: "env \<Rightarrow> UnifiedTransferOptions \<Rightarrow> unit run" where
  "unifiedTransfer env options =
     (if chainToTransfer options \<notin> set validChains \<or> chainToTransfer options = ARC_CHAIN then
        throw (Error (''Invalid chain: '' @ chainToTransfer options @ ''. Valid EVM chains: ''
                       @ join '', '' validEvmChains) None)
      else if \<not> Number_isFinite (amount options) \<or> num_le (amount options) (Fin 0) then
        throw (Error ''Amount must be a positive number (USDC).'' None)
      else
        bind_run (lift (transferValueOf (amount options)))
          (\<lambda>transferValue.
        let sourceChain = (if isEvmToArc options then chainToTransfer options else ARC_CHAIN);
            destChain = (if isEvmToArc options then ARC_CHAIN else chainToTransfer options)
        in
        bind_run (lift (chainConfig sourceChain))
          (\<lambda>sourceConfig.
        bind_run (lift (chainConfig destChain))
          (\<lambda>destConfig.
        bind_run
          (getVaultBalances (account env) (Some [sourceChain, destChain]) (vaultBalancesBefore env))
          (\<lambda>_.
        bind_run (perform (LogWalletBalances sourceChain destChain) (walletBalancesBefore env))
          (\<lambda>_.
        bind_run (ensureGatewayBalance env sourceChain sourceConfig transferValue)
          (\<lambda>_.
        bind_run (signBurnIntent env sourceChain destChain transferValue)
          (\<lambda>(typedData, signature).
        bind_run (requestAttestation env typedData signature)
          (\<lambda>(attestation, operatorSig).
             mintOnDestination env sourceChain destChain attestation operatorSig)))))))))"

section \<open>Vocabulary of the statements\<close>

subsection \<open>Polls of the Balance Waiter\<close>

text \<open>
  The balance that the \<open>i\<close>-th poll observes for the chain, when its \<open>getVaultBalances\<close>
  returns; the time, in milliseconds after \<open>start\<close>, at which the \<open>i\<close>-th iteration is
  entered, and the value \<open>elapsed\<close> has in it.
\<close>

definition observed :: "string \<Rightarrow> string \<Rightarrow> poll \<Rightarrow> number option" where
  "observed acct chn p =
     (case getVaultBalances acct (Some [chn]) (response p) of
        Some (_, Inr entries) \<Rightarrow> Some (observed_balance chn entries)
      | _ \<Rightarrow> None)"

primrec poll_start :: "nat \<Rightarrow> (nat \<Rightarrow> poll) \<Rightarrow> nat \<Rightarrow> nat" where
  "poll_start interval polls 0 = 0"
| "poll_start interval polls (Suc i) =
     poll_start interval polls i + latency (polls i) + interval"

definition elapsed_at :: "nat \<Rightarrow> (nat \<Rightarrow> poll) \<Rightarrow> nat \<Rightarrow> nat" where
  "elapsed_at interval polls i = poll_start interval polls i + latency (polls i)"

text \<open>The trace of \<open>k\<close> polls, each followed by a sleep.\<close>

definition polls_then_sleeps :: "nat \<Rightarrow> string \<Rightarrow> nat \<Rightarrow> nat \<Rightarrow> effect list" where
  "polls_then_sleeps d acct interval k =
     concat (replicate k [FetchBalances [(d, acct)], Sleep interval])"

subsection \<open>Traces of a transfer\<close>

text \<open>
  The three effects of a transfer proper (the signature of the burn intent, the
  attestation request, the mint submission) and the two of the recovery path (the call of
  the Depositor, the call of the Balance Waiter); the projections of a trace on them keep
  the order of the trace.
\<close>

fun is_transfer_effect :: "effect \<Rightarrow> bool" where
  "is_transfer_effect (SignTypedData _) = True"
| "is_transfer_effect (FetchTransfer _ _) = True"
| "is_transfer_effect (GatewayMint _ _ _) = True"
| "is_transfer_effect _ = False"

fun is_recovery_effect :: "effect \<Rightarrow> bool" where
  "is_recovery_effect (DepositToGateway _ _) = True"
| "is_recovery_effect (WaitForGatewayBalance _ _ _ _) = True"
| "is_recovery_effect _ = False"

definition transfer_effects :: "effect list \<Rightarrow> effect list" where
  "transfer_effects tr = filter is_transfer_effect tr"

definition milestones :: "effect list \<Rightarrow> effect list" where
  "milestones tr = filter (\<lambda>e. is_recovery_effect e \<or> is_transfer_effect e) tr"

text \<open>The two ends of the route and the amount in smallest units, as the code derives them.\<close>

definition sourceChainOf :: "UnifiedTransferOptions \<Rightarrow> string" where
  "sourceChainOf options = (if isEvmToArc options then chainToTransfer options else ARC_CHAIN)"

definition destChainOf :: "UnifiedTransferOptions \<Rightarrow> string" where
  "destChainOf options = (if isEvmToArc options then ARC_CHAIN else chainToTransfer options)"

text \<open>Steps 2 to 4 of the source, in sequence.\<close>

definition burnAndMint :: "env \<Rightarrow> string \<Rightarrow> string \<Rightarrow> int \<Rightarrow> unit run" where
  "burnAndMint env sourceChain destChain transferValue =
     bind_run (signBurnIntent env sourceChain destChain transferValue)
       (\<lambda>(typedData, signature).
     bind_run (requestAttestation env typedData signature)
       (\<lambda>(attestation, operatorSig).
          mintOnDestination env sourceChain destChain attestation operatorSig))"

text \<open>The typed data that a transfer signs.\<close>

definition typedDataOf :: "env \<Rightarrow> string \<Rightarrow> string \<Rightarrow> int \<Rightarrow> typed_data result" where
  "typedDataOf env sourceChain destChain transferValue =
     bind_result
       (createBurnIntent sourceChain destChain transferValue (account env) None
          (randomBytes32 env))
       burnIntentTypedData"

subsection \<open>Requests, responses and amounts\<close>

text \<open>A request that passes the validation of \<open>unifiedTransfer\<close>.\<close>

definition valid_request :: "UnifiedTransferOptions \<Rightarrow> bool" where
  "valid_request options =
     (chainToTransfer options \<in> set validChains \<and> chainToTransfer options \<noteq> ARC_CHAIN \<and>
      Number_isFinite (amount options) \<and> \<not> num_le (amount options) (Fin 0))"

text \<open>
  The collaborators behind the two reads that precede the balance check answer well: the
  balance endpoint with a 2xx response holding a \<open>balances\<close> array, the RPC reads of the
  wallet balances without error.
\<close>

definition balances_response_ok :: "balances_response result \<Rightarrow> bool" where
  "balances_response_ok fetched =
     (case fetched of
        Inl _ \<Rightarrow> False
      | Inr res \<Rightarrow>
          response_ok (status res) \<and>
          (case body res of JsonObject (Balances _) \<Rightarrow> True | _ \<Rightarrow> False))"

definition reads_succeed :: "env \<Rightarrow> bool" where
  "reads_succeed env =
     (balances_response_ok (vaultBalancesBefore env) \<and> walletBalancesBefore env = Inr ())"

text \<open>A response body that carries both the attestation and the operator signature.\<close>

fun has_attestation :: "transfer_json \<Rightarrow> bool" where
  "has_attestation (TransferJsonObject (Some attestation) (Some operatorSig)) =
     (attestation \<noteq> [] \<and> operatorSig \<noteq> [])"
| "has_attestation _ = False"

text \<open>A 20-byte address, and the 32-byte form that \<open>addressToBytes32\<close> gives it.\<close>

definition isAddress :: "string \<Rightarrow> bool" where
  "isAddress a = (case getBytes a of Inl _ \<Rightarrow> False | Inr bs \<Rightarrow> length bs = 20)"

definition canonical :: "string \<Rightarrow> string" where
  "canonical a = ''0x'' @ replicate 24 CHR ''0'' @ toLowerCase (drop 2 a)"


subsection \<open>Example collaborators\<close>

definition example_account :: string where
  "example_account = ''0xf39Fd6e51aad88F6F4ce6aB8827279cffFb92266''"

definition balances_ok :: "balance_item list \<Rightarrow> balances_response result" where
  "balances_ok items = Inr \<lparr>status = 200, body = JsonObject (Balances items), stringified = []\<rparr>"


text \<open>Polls that take 200 ms each and report an empty \<open>balances\<close> array.\<close>

definition empty_polls :: "nat \<Rightarrow> poll" where
  "empty_polls i = \<lparr>latency = 200, response = balances_ok []\<rparr>"

text \<open>
  Collaborators that all answer well: the vault holds 5 USDC on domain 6, yet the wallet
  holds none, so that a deposit would fail.
\<close>

definition example_env :: env where
  "example_env =
     \<lparr>account = example_account,
      randomBytes32 = replicate 32 0x5A,
      vaultBalancesBefore = balances_ok [],
      walletBalancesBefore = Inr (),
      balancesFetch = balances_ok [\<lparr>item_domain = 6, item_balance = Some (Fin 5)\<rparr>],
      depositOutcome = Inl (Error ''Insufficient USDC balance'' None),
      waiterPolls = empty_polls,
      signTypedData = (\<lambda>td. Inr ''0x5167''),
      transferFetch =
        Inr \<lparr>transfer_status = 200, transfer_text = [],
             transfer_json = TransferJsonObject (Some ''0xa77e'') (Some ''0x0b51'')\<rparr>,
      gatewayMintOutcome = Inr ''0x7a5c'',
      mintWaitOutcome = Inr (),
      vaultBalancesAfter = balances_ok [],
      walletBalancesAfter = Inr ()\<rparr>"

text \<open>The same collaborators, with a vault balance of 0.343333 USDC on domain 6.\<close>

definition dust_env :: env where
  "dust_env =
     example_env\<lparr>balancesFetch :=
       balances_ok [\<lparr>item_domain = 6, item_balance = Some (Fin (343333 / 1000000))\<rparr>]\<rparr>"


text \<open>
  The same collaborators as in \<open>example_env\<close>, except that the transfer endpoint answers
  400, that the mint transaction cannot be sent for lack of native gas, or that it reverts.
\<close>

definition rejecting_env :: env where
  "rejecting_env =
     example_env\<lparr>transferFetch :=
       Inr \<lparr>transfer_status = 400, transfer_text = ''bad request'',
            transfer_json = TransferJsonNull\<rparr>\<rparr>"

definition gasless_env :: env where
  "gasless_env =
     example_env\<lparr>gatewayMintOutcome :=
       Inl (Error ''insufficient funds for intrinsic transaction cost''
              (Some ''INSUFFICIENT_FUNDS''))\<rparr>"

definition reverting_env :: env where
  "reverting_env =
     example_env\<lparr>gatewayMintOutcome :=
       Inl (Error ''execution reverted'' (Some ''CALL_EXCEPTION''))\<rparr>"

section \<open>Properties\<close>

subsection \<open>Hexadecimal round trips\<close>

lemma unat_low_nibble: "unat ((w::byte) AND 0x0F) = unat w mod 16"
proof -
  have "(0x0F::byte) = mask 4" by (simp add: mask_eq_exp_minus_1)
  then have "w AND 0x0F = take_bit 4 w" by (simp only: take_bit_eq_mask)
  then have "unat (w AND 0x0F) = take_bit 4 (unat w)" by (simp only: unsigned_take_bit_eq)
  also have "\<dots> = unat w mod 16" by (simp only: take_bit_eq_mod) simp
  finally show ?thesis .
qed

lemma unat_high_nibble: "unat (drop_bit 4 ((w::byte) AND 0xF0)) = unat w div 16"
proof -
  have "drop_bit 4 (w AND 0xF0) = drop_bit 4 w AND drop_bit 4 0xF0"
    by (simp only: drop_bit_and)
  also have "drop_bit 4 (0xF0::byte) = mask 4"
    by (simp add: mask_eq_exp_minus_1 drop_bit_eq_div)
  also have "drop_bit 4 w AND mask 4 = drop_bit 4 w"
    by (rule bit_word_eqI) (auto simp add: bit_simps dest: bit_imp_le_length)
  finally have "drop_bit 4 (w AND 0xF0) = drop_bit 4 w" .
  then have "unat (drop_bit 4 (w AND 0xF0)) = drop_bit 4 (unat w)"
    by (simp only: unat_drop_bit_eq)
  also have "\<dots> = unat w div 16" by (simp only: drop_bit_eq_div) simp
  finally show ?thesis .
qed

lemma unat_byte_of_nibbles:
  "h < 16 \<Longrightarrow> l < 16 \<Longrightarrow> unat (byte_of_nibbles h l) = 16 * h + l"
  unfolding byte_of_nibbles_def by (simp only: unat_of_nat) simp

lemma hex_char_table:
  "list_all (\<lambda>n. hex_char n = char_of (if n < 10 then 48 + n else 87 + n)) [0..<16]"
  by code_simp

lemma hex_char_eq:
  "n < 16 \<Longrightarrow> hex_char n = char_of (if n < 10 then 48 + n else 87 + n)"
  using hex_char_table unfolding list_all_iff by simp

lemma hex_val_hex_char: "n < 16 \<Longrightarrow> hex_val (hex_char n) = Some n"
  by (simp add: hex_char_eq hex_val_def)

lemma hex_val_less: "hex_val c = Some n \<Longrightarrow> n < 16"
  by (auto simp add: hex_val_def Let_def split: if_splits)

lemma hex_char_hex_val: "hex_val c = Some n \<Longrightarrow> hex_char n = toLowerChar c"
proof -
  assume h: "hex_val c = Some n"
  then have n: "n < 16" by (rule hex_val_less)
  have c: "char_of (of_char c :: nat) = c" by simp
  show ?thesis using h n
    apply (simp add: hex_char_eq)
    apply (auto simp add: hex_val_def toLowerChar_def Let_def split: if_splits)
    done
qed

lemma toLowerChar_hex_char: "n < 16 \<Longrightarrow> toLowerChar (hex_char n) = hex_char n"
  by (simp add: hex_char_eq toLowerChar_def)

lemma hex_val_toLowerChar: "hex_val (toLowerChar c) = hex_val c"
  by (auto simp add: hex_val_def toLowerChar_def Let_def)


lemma hexlify_byte_eq:
  "hexlify_byte v = [hex_char (unat v div 16), hex_char (unat v mod 16)]"
  by (simp only: hexlify_byte_def unat_low_nibble unat_high_nibble)

lemma hexlify_byte_of_nibbles:
  assumes "hex_val c1 = Some h" and "hex_val c2 = Some l"
  shows "hexlify_byte (byte_of_nibbles h l) = [toLowerChar c1, toLowerChar c2]"
proof -
  have h: "h < 16" and l: "l < 16" using assms by (auto dest: hex_val_less)
  have "unat (byte_of_nibbles h l) = 16 * h + l"
    using h l by (rule unat_byte_of_nibbles)
  then show ?thesis
    using h l assms by (simp add: hexlify_byte_eq hex_char_hex_val)
qed

lemma byte_of_nibbles_unat: "byte_of_nibbles (unat v div 16) (unat v mod 16) = v"
  by (simp add: byte_of_nibbles_def mult_div_mod_eq del: of_nat_add of_nat_mult)

lemma unat_byte_div: "unat (v::byte) div 16 < 16"
proof -
  have "unat v < 2 ^ LENGTH(8)" by (rule unsigned_less)
  then show ?thesis by simp
qed

lemma parse_hex_pairs_hexlify_byte:
  "parse_hex_pairs (hexlify_byte v @ s) =
     (case parse_hex_pairs s of Some bs \<Rightarrow> Some (v # bs) | None \<Rightarrow> None)"
  by (simp add: hexlify_byte_eq hex_val_hex_char unat_byte_div byte_of_nibbles_unat
      split: option.splits)

lemma concat_hexlify_parse:
  "parse_hex_pairs s = Some bs \<Longrightarrow> concat (map hexlify_byte bs) = toLowerCase s"
proof (induction s arbitrary: bs rule: parse_hex_pairs.induct)
  case 1
  then show ?case by (simp add: toLowerCase_def)
next
  case (2 c)
  then show ?case by simp
next
  case (3 c1 c2 cs)
  then show ?case
    by (auto simp add: toLowerCase_def hexlify_byte_of_nibbles split: option.splits)
qed

lemma parse_concat_hexlify: "parse_hex_pairs (concat (map hexlify_byte bs)) = Some bs"
  by (induction bs) (simp_all add: parse_hex_pairs_hexlify_byte)

lemma getBytes_hexlify: "getBytes (hexlify bs) = Inr bs"
  by (simp add: getBytes_def hexlify_def parse_concat_hexlify)

lemma parse_hex_pairs_toLowerCase: "parse_hex_pairs (toLowerCase s) = parse_hex_pairs s"
  by (induction s rule: parse_hex_pairs.induct)
     (auto simp add: toLowerCase_def hex_val_toLowerChar split: option.splits)

lemma toLowerChar_prefix:
  "toLowerChar CHR ''0'' = CHR ''0''" "toLowerChar CHR ''x'' = CHR ''x''"
  "toLowerChar CHR ''X'' = CHR ''x''"
  by (simp_all add: toLowerChar_def char_of_def bit_Suc_0_iff)

lemma getBytes_toLowerCase: "getBytes s = Inr bs \<Longrightarrow> getBytes (toLowerCase s) = Inr bs"
proof -
  assume a: "getBytes s = Inr bs"
  then obtain c0 cx ds where s: "s = c0 # cx # ds"
    by (auto simp add: getBytes_def split: list.splits)
  with a have p: "c0 = CHR ''0''" "cx = CHR ''x'' \<or> cx = CHR ''X''" "parse_hex_pairs ds = Some bs"
    by (auto simp add: getBytes_def split: if_splits option.splits)
  have "toLowerCase s = CHR ''0'' # CHR ''x'' # toLowerCase ds"
    using s p by (auto simp add: toLowerCase_def toLowerChar_prefix)
  then show ?thesis
    using p by (simp add: getBytes_def parse_hex_pairs_toLowerCase)
qed

lemma toLowerCase_concat_hexlify:
  "toLowerCase (concat (map hexlify_byte bs)) = concat (map hexlify_byte bs)"
  by (induction bs)
     (simp_all add: toLowerCase_def hexlify_byte_eq toLowerChar_hex_char unat_byte_div)

lemma toLowerCase_hexlify: "toLowerCase (hexlify bs) = hexlify bs"
  using toLowerCase_concat_hexlify [of bs]
  by (simp add: hexlify_def toLowerCase_def toLowerChar_prefix)

lemma hexlify_zero_bytes:
  "concat (map hexlify_byte (replicate n 0)) = replicate (2 * n) CHR ''0''"
  by (induction n) (simp_all add: hexlify_byte_def hex_char_def HexCharacters_def)

lemma addressToBytes32_hexlify:
  "length bs = 32 \<Longrightarrow> addressToBytes32 (hexlify bs) = Inr (hexlify bs)"
  by (simp add: addressToBytes32_def zeroPadValue_def toLowerCase_hexlify getBytes_hexlify)

subsection \<open>Address canonicalization\<close>

lemma addressToBytes32_pads:
  assumes "getBytes address = Inr bs" and "length bs = 20"
  shows "addressToBytes32 address =
           Inr (''0x'' @ replicate 24 CHR ''0'' @ toLowerCase (drop 2 address)) \<and>
         getBytes (''0x'' @ replicate 24 CHR ''0'' @ toLowerCase (drop 2 address)) =
           Inr (replicate 12 0 @ bs) \<and>
         length (replicate 12 (0::byte) @ bs) = 32 \<and>
         addressToBytes32 (''0x'' @ replicate 24 CHR ''0'' @ toLowerCase (drop 2 address)) =
           Inr (''0x'' @ replicate 24 CHR ''0'' @ toLowerCase (drop 2 address))"
proof -
  obtain c0 cx ds where s: "address = c0 # cx # ds"
    using assms(1) by (auto simp add: getBytes_def split: list.splits)
  with assms(1) have p: "parse_hex_pairs ds = Some bs"
    by (auto simp add: getBytes_def split: if_splits option.splits)
  let ?r = "''0x'' @ replicate 24 CHR ''0'' @ toLowerCase (drop 2 address)"
  have r: "hexlify (replicate 12 0 @ bs) = ?r"
    using concat_hexlify_parse [OF p] hexlify_zero_bytes [of 12]
    by (simp add: hexlify_def s)
  have 1: "addressToBytes32 address = Inr ?r"
    using getBytes_toLowerCase [OF assms(1)] assms(2) r
    by (simp add: addressToBytes32_def zeroPadValue_def)
  have 2: "getBytes ?r = Inr (replicate 12 0 @ bs)"
    using getBytes_hexlify [of "replicate 12 0 @ bs"] r by simp
  have 3: "addressToBytes32 ?r = Inr ?r"
    using addressToBytes32_hexlify [of "replicate 12 0 @ bs"] assms(2) r by simp
  show ?thesis using 1 2 3 assms(2) by simp
qed

text \<open>
  Claim C8. For every 20-byte address (a string that \<open>getBytes\<close> reads as 20 bytes),
  \<open>addressToBytes32\<close> returns the string \<^verbatim>\<open>0x\<close>, 24 zero digits, then the 40 digits of the
  address in lower case; that string reads back as 32 bytes, 12 zero bytes followed by the
  bytes of the address; and canonicalizing that string again returns it unchanged.
\<close>

theorem addressToBytes32_canonical:
  assumes "getBytes address = Inr bs" and "length bs = 20"
  shows "addressToBytes32 address =
           Inr (''0x'' @ replicate 24 CHR ''0'' @ toLowerCase (drop 2 address)) \<and>
         getBytes (''0x'' @ replicate 24 CHR ''0'' @ toLowerCase (drop 2 address)) =
           Inr (replicate 12 0 @ bs) \<and>
         length (replicate 12 (0::byte) @ bs) = 32 \<and>
         addressToBytes32 (''0x'' @ replicate 24 CHR ''0'' @ toLowerCase (drop 2 address)) =
           Inr (''0x'' @ replicate 24 CHR ''0'' @ toLowerCase (drop 2 address))"
  using addressToBytes32_pads [OF assms] .

theorem addressToBytes32_canonical_witness:
  "getBytes ''0x0077777d7EBA4688BDeF3E311b846F25870A19B9'' =
     Inr [0x00, 0x77, 0x77, 0x7d, 0x7E, 0xBA, 0x46, 0x88, 0xBD, 0xeF,
          0x3E, 0x31, 0x1b, 0x84, 0x6F, 0x25, 0x87, 0x0A, 0x19, 0xB9] \<and>
   addressToBytes32 ''0x0077777d7EBA4688BDeF3E311b846F25870A19B9'' =
     Inr ''0x0000000000000000000000000077777d7eba4688bdef3e311b846f25870a19b9'' \<and>
   addressToBytes32 ''0x0000000000000000000000000077777d7eba4688bdef3e311b846f25870a19b9'' =
     Inr ''0x0000000000000000000000000077777d7eba4688bdef3e311b846f25870a19b9''"
proof -
  have g: "getBytes ''0x0077777d7EBA4688BDeF3E311b846F25870A19B9'' =
     Inr [0x00, 0x77, 0x77, 0x7d, 0x7E, 0xBA, 0x46, 0x88, 0xBD, 0xeF,
          0x3E, 0x31, 0x1b, 0x84, 0x6F, 0x25, 0x87, 0x0A, 0x19, 0xB9]"
    by (simp add: getBytes_def hex_val_def byte_of_nibbles_def)
  have l: "toLowerCase (drop 2 ''0x0077777d7EBA4688BDeF3E311b846F25870A19B9'') =
      ''0077777d7eba4688bdef3e311b846f25870a19b9''"
    by (simp add: toLowerCase_def toLowerChar_def char_of_def bit_Suc_0_iff)
  show ?thesis
    using addressToBytes32_canonical [OF g] g l by (simp add: numeral_eq_Suc)
qed

subsection \<open>Balance Waiter\<close>

lemma getVaultBalances_one:
  "getVaultBalances acct (Some [chn]) fetched =
     (case chainConfig chn of
        Inl e \<Rightarrow> Some ([], Inl e)
      | Inr c \<Rightarrow>
          (case fetched of
             Inl e \<Rightarrow> Some ([FetchBalances [(domainId c, acct)]], Inl e)
           | Inr res \<Rightarrow>
               if body res = JsonInvalid then
                 Some ([FetchBalances [(domainId c, acct)]], Inl SyntaxError)
               else if \<not> response_ok (status res) then
                 Some ([FetchBalances [(domainId c, acct)]],
                   Inl (Error (''Gateway API '' @ string_of_nat (status res) @ '': ''
                                @ stringified res) None))
               else
                 (case body res of
                    JsonInvalid \<Rightarrow> Some ([FetchBalances [(domainId c, acct)]], Inl SyntaxError)
                  | JsonNull \<Rightarrow> Some ([FetchBalances [(domainId c, acct)]], Inl TypeError)
                  | JsonObject (Balances balances) \<Rightarrow>
                      Some ([FetchBalances [(domainId c, acct)]],
                        Inr (map (vault_entry [(chn, domainId c)]) balances))
                  | JsonObject _ \<Rightarrow>
                      Some ([FetchBalances [(domainId c, acct)]],
                        Inl (Error ''API did not return a balances array'' None)))))"
  by (simp add: getVaultBalances_def bind_run_def bind_result_def lift_def perform_def
      throw_def return_def
      split: sum.splits balances_json.splits balances_field.splits)

lemma observed_SomeD:
  assumes "observed acct chn p = Some b"
  shows "\<exists>c entries. chainConfig chn = Inr c \<and>
           getVaultBalances acct (Some [chn]) (response p) =
             Some ([FetchBalances [(domainId c, acct)]], Inr entries) \<and>
           observed_balance chn entries = b"
  using assms
  by (auto simp add: observed_def getVaultBalances_one
      split: sum.splits if_splits balances_json.splits balances_field.splits)


lemma wait_loop_continue:
  assumes "observed acct chn (polls i) = Some b" and "\<not> num_ge b thr"
    and "t + latency (polls i) < timeout" and "chainConfig chn = Inr c"
  shows "wait_loop acct chn thr interval timeout polls i t acc =
         wait_loop acct chn thr interval timeout polls (Suc i) (t + latency (polls i) + interval)
           (acc @ [FetchBalances [(domainId c, acct)], Sleep interval])"
  using observed_SomeD [OF assms(1)] assms(2-4)
  by (subst wait_loop.simps) auto

lemma wait_loop_success:
  assumes "observed acct chn (polls i) = Some b" and "num_ge b thr"
    and "chainConfig chn = Inr c"
  shows "wait_loop acct chn thr interval timeout polls i t acc =
         Some (acc @ [FetchBalances [(domainId c, acct)]], Inr ())"
  using observed_SomeD [OF assms(1)] assms(2-3)
  by (subst wait_loop.simps) auto

lemma wait_loop_timeout:
  assumes "observed acct chn (polls i) = Some b" and "\<not> num_ge b thr"
    and "timeout \<le> t + latency (polls i)" and "chainConfig chn = Inr c"
  shows "wait_loop acct chn thr interval timeout polls i t acc =
         Some (acc @ [FetchBalances [(domainId c, acct)]],
           Inl (TimeoutError thr chn b
                  (nat (Math_round (of_nat (t + latency (polls i)) / 1000)))))"
  using observed_SomeD [OF assms(1)] assms(2-4)
  by (subst wait_loop.simps) auto

lemma polls_then_sleeps_Suc:
  "polls_then_sleeps d acct interval (Suc k) =
     polls_then_sleeps d acct interval k @ [FetchBalances [(d, acct)], Sleep interval]"
proof -
  have "replicate (Suc k) [FetchBalances [(d, acct)], Sleep interval] =
        replicate k [FetchBalances [(d, acct)], Sleep interval]
          @ [[FetchBalances [(d, acct)], Sleep interval]]"
    by (simp only: replicate_Suc replicate_append_same)
  then show ?thesis
    unfolding polls_then_sleeps_def by (simp only: concat_append) simp
qed

lemma wait_loop_iterate:
  assumes "chainConfig chn = Inr c"
    and "\<And>j. j < k \<Longrightarrow> \<exists>b. observed acct chn (polls j) = Some b \<and> \<not> num_ge b thr \<and>
           elapsed_at interval polls j < timeout"
  shows "wait_loop acct chn thr interval timeout polls 0 0 acc =
         wait_loop acct chn thr interval timeout polls k (poll_start interval polls k)
           (acc @ polls_then_sleeps (domainId c) acct interval k)"
  using assms(2)
proof (induction k)
  case 0
  show ?case by (simp add: polls_then_sleeps_def)
next
  case (Suc k)
  have "wait_loop acct chn thr interval timeout polls 0 0 acc =
        wait_loop acct chn thr interval timeout polls k (poll_start interval polls k)
          (acc @ polls_then_sleeps (domainId c) acct interval k)"
    using Suc.prems by (intro Suc.IH) simp
  moreover obtain b where b: "observed acct chn (polls k) = Some b" "\<not> num_ge b thr"
      "elapsed_at interval polls k < timeout"
    using Suc.prems [of k] by auto
  moreover have "poll_start interval polls k + latency (polls k) < timeout"
    using b(3) by (simp add: elapsed_at_def)
  ultimately show ?case
    using b(1,2) assms(1)
      wait_loop_continue [where polls = polls and i = k and b = b and thr = thr and chn = chn
        and c = c and acct = acct and t = "poll_start interval polls k" and timeout = timeout
        and interval = interval and acc = "acc @ polls_then_sleeps (domainId c) acct interval k"]
    by (simp add: polls_then_sleeps_Suc)
qed

lemma getVaultBalances_returns:
  "\<exists>effs r. getVaultBalances acct ks fetched = Some (effs, r)"
  by (auto simp add: getVaultBalances_def bind_run_def lift_def perform_def throw_def return_def
      split: sum.splits option.splits prod.splits if_splits balances_json.splits
        balances_field.splits)

lemma wait_loop_returns:
  assumes "0 < interval"
  shows "\<exists>y. wait_loop acct chn thr interval timeout polls i t acc = Some y"
proof (induction "timeout - t" arbitrary: i t acc rule: less_induct)
  case less
  obtain effs r where g: "getVaultBalances acct (Some [chn]) (response (polls i)) = Some (effs, r)"
    using getVaultBalances_returns by blast
  show ?case
  proof (cases r)
    case (Inl e)
    then show ?thesis using g by (subst wait_loop.simps) simp
  next
    case (Inr entries)
    show ?thesis
    proof (cases "num_ge (observed_balance chn entries) thr \<or> timeout \<le> t + latency (polls i)")
      case True
      then show ?thesis using g Inr by (subst wait_loop.simps) auto
    next
      case False
      then have "timeout - (t + latency (polls i) + interval) < timeout - t"
        using assms by arith
      from less [OF this] show ?thesis
        using g Inr False by (subst wait_loop.simps) auto
    qed
  qed
qed


lemma chainConfig_key:
  assumes "chainConfig chn = Inr c"
  shows "chn \<in> set validChains"
proof -
  from assms have "map_of chainConfigs chn = Some c"
    by (simp add: chainConfig_def split: option.splits)
  then have "(chn, c) \<in> set chainConfigs" by (rule map_of_SomeD)
  then show ?thesis unfolding validChains_def by force
qed

lemma validChains_eq:
  "validChains = [''sepolia'', ''baseSepolia'', ''avalancheFuji'', ''arcTestnet'',
     ''hyperliquidEvmTestnet'', ''seiTestnet'', ''sonicTestnet'', ''worldchainSepolia'']"
  by (simp add: validChains_def chainConfigs_def)

lemma chain_key_not_Domain:
  assumes "chainConfig chn = Inr c"
  shows "chn \<noteq> ''Domain '' @ s"
  using chainConfig_key [OF assms] by (auto simp add: validChains_eq)

lemma observed_missing:
  assumes "chainConfig chn = Inr c" and "response p = Inr res" and "response_ok (status res)"
    and "body res = JsonObject (Balances items)"
    and "\<forall>b\<in>set items. item_domain b \<noteq> domainId c"
  shows "observed acct chn p = Some (Fin 0)"
proof -
  have "find (\<lambda>e. entry_chain e = chn) (map (vault_entry [(chn, domainId c)]) items) = None"
    using assms(5) chain_key_not_Domain [OF assms(1)]
    by (auto simp add: find_None_iff vault_entry_def domainToChain_def)
  then show ?thesis
    using assms(1-4)
    by (simp add: observed_def getVaultBalances_one observed_balance_def)
qed

lemma Math_round_frac:
  assumes "0 < d"
  shows "Math_round (of_int n / of_int d) = (2 * n + d) div (2 * d)"
proof -
  have "(of_int n / of_int d + 1 / 2 :: rat) = of_int (2 * n + d) / of_int (2 * d)"
    using assms by (simp add: field_simps)
  then show ?thesis
    unfolding Math_round_def by (simp only: floor_divide_of_int_eq)
qed

lemma chainConfig_baseSepolia:
  "chainConfig ''baseSepolia'' =
     Inr \<lparr>chain = chainWithRpc ''Base Sepolia'' 84532 ''https://sepolia.base.org'',
          usdcAddress = ''0x036CbD53842c5426634e7929541eC2318f3dCF7e'', domainId = 6\<rparr>"
  by (simp add: chainConfig_def chainConfigs_def)


lemma elapsed_at_200:
  assumes "\<And>i. latency (polls i) = 200"
  shows "elapsed_at interval polls k = k * (200 + interval) + 200"
  unfolding elapsed_at_def by (induction k) (simp_all add: assms)



lemma empty_polls_missing:
  "\<exists>res items. response (empty_polls j) = Inr res \<and> response_ok (status res) \<and>
       body res = JsonObject (Balances items) \<and> (\<forall>b\<in>set items. item_domain b \<noteq> d)"
  by (simp add: empty_polls_def balances_ok_def response_ok_def)

lemma elapsed_at_empty_polls: "elapsed_at interval empty_polls k = k * (200 + interval) + 200"
  by (simp add: elapsed_at_200 empty_polls_def)

text \<open>
  Claim C10, as amended. When the response of the balance endpoint has no entry for the
  chain, the poll raises no error and observes the balance 0. If 0 does not meet the
  threshold and every poll up to the first one made once the timeout has elapsed has no
  entry for the chain, the waiter throws the timeout error, reporting the balance 0.
\<close>

theorem waitForGatewayBalance_missing_entry:
  assumes "chainConfig chn = Inr c"
    and "\<forall>j\<le>k. \<exists>res items. response (polls j) = Inr res \<and> response_ok (status res) \<and>
           body res = JsonObject (Balances items) \<and>
           (\<forall>b\<in>set items. item_domain b \<noteq> domainId c)"
    and "\<not> num_ge (Fin 0) thr"
    and "\<forall>j<k. elapsed_at interval polls j < timeout"
    and "timeout \<le> elapsed_at interval polls k"
  shows "(\<forall>j\<le>k. observed acct chn (polls j) = Some (Fin 0)) \<and>
         waitForGatewayBalance acct polls chn thr
           \<lparr>pollIntervalMs = Some interval, timeoutMs = Some timeout\<rparr> =
         Some (WaitForGatewayBalance chn thr interval timeout #
                 polls_then_sleeps (domainId c) acct interval k @
                 [FetchBalances [(domainId c, acct)]],
               Inl (TimeoutError thr chn (Fin 0)
                      (nat (Math_round (of_nat (elapsed_at interval polls k) / 1000)))))"
proof -
  have obs: "observed acct chn (polls j) = Some (Fin 0)" if "j \<le> k" for j
    using assms(2) that observed_missing [OF assms(1)] by blast
  let ?acc = "[WaitForGatewayBalance chn thr interval timeout]"
  have "wait_loop acct chn thr interval timeout polls 0 0 ?acc =
        wait_loop acct chn thr interval timeout polls k (poll_start interval polls k)
          (?acc @ polls_then_sleeps (domainId c) acct interval k)"
    using obs assms(3,4) by (intro wait_loop_iterate [OF assms(1)]) auto
  moreover have "wait_loop acct chn thr interval timeout polls k (poll_start interval polls k)
          (?acc @ polls_then_sleeps (domainId c) acct interval k) =
      Some ((?acc @ polls_then_sleeps (domainId c) acct interval k) @
              [FetchBalances [(domainId c, acct)]],
            Inl (TimeoutError thr chn (Fin 0)
                   (nat (Math_round (of_nat (elapsed_at interval polls k) / 1000)))))"
    unfolding elapsed_at_def
    using obs [of k] assms(1,3,5) by (intro wait_loop_timeout) (auto simp add: elapsed_at_def)
  ultimately show ?thesis
    using obs by (simp add: waitForGatewayBalance_def)
qed

theorem waitForGatewayBalance_missing_entry_witness:
  "observed example_account ''baseSepolia'' (empty_polls 0) = Some (Fin 0) \<and>
   observed example_account ''baseSepolia'' (empty_polls 1) = Some (Fin 0) \<and>
   waitForGatewayBalance example_account empty_polls ''baseSepolia'' (Fin (101 / 100))
       \<lparr>pollIntervalMs = Some 30000, timeoutMs = Some 30000\<rparr> =
     Some ([WaitForGatewayBalance ''baseSepolia'' (Fin (101 / 100)) 30000 30000,
            FetchBalances [(6, example_account)], Sleep 30000,
            FetchBalances [(6, example_account)]],
           Inl (TimeoutError (Fin (101 / 100)) ''baseSepolia'' (Fin 0) 30))"
proof -
  have r: "nat (Math_round (rat_of_nat 30400 / 1000)) = 30"
    using Math_round_frac [of 1000 30400] by simp
  have m: "\<forall>j\<le>1. \<exists>res items. response (empty_polls j) = Inr res \<and> response_ok (status res) \<and>
           body res = JsonObject (Balances items) \<and>
           (\<forall>b\<in>set items. item_domain b \<noteq>
              domainId \<lparr>chain = chainWithRpc ''Base Sepolia'' 84532 ''https://sepolia.base.org'',
                usdcAddress = ''0x036CbD53842c5426634e7929541eC2318f3dCF7e'', domainId = 6\<rparr>)"
    using empty_polls_missing by blast
  have t: "\<not> num_ge (Fin 0) (Fin (101 / 100))" by (simp add: num_ge_def)
  have w: "\<forall>j<1. elapsed_at 30000 empty_polls j < 30000"
    by (simp add: elapsed_at_empty_polls)
  have d: "30000 \<le> elapsed_at 30000 empty_polls 1"
    by (simp add: elapsed_at_empty_polls)
  have p1: "polls_then_sleeps 6 example_account 30000 (Suc 0) =
      [FetchBalances [(6, example_account)], Sleep 30000]"
    by (simp add: polls_then_sleeps_def)
  note a = waitForGatewayBalance_missing_entry [OF chainConfig_baseSepolia m t w d,
      of example_account]
  have o: "\<forall>j\<le>1. observed example_account ''baseSepolia'' (empty_polls j) = Some (Fin 0)"
    using a by blast
  show ?thesis
    using a o r by (simp add: elapsed_at_empty_polls p1)
qed

text \<open>
  The claim as stated fails for a threshold that 0 meets: with the threshold 0 and no
  entry for the chain, the waiter returns at its first poll.
\<close>

theorem waitForGatewayBalance_zero_threshold_returns:
  "waitForGatewayBalance example_account empty_polls ''baseSepolia'' (Fin 0)
       \<lparr>pollIntervalMs = None, timeoutMs = None\<rparr> =
     Some ([WaitForGatewayBalance ''baseSepolia'' (Fin 0) 30000 1500000,
            FetchBalances [(6, example_account)]],
           Inr ())"
proof -
  have "observed example_account ''baseSepolia'' (empty_polls 0) = Some (Fin 0)"
    using empty_polls_missing [of 0 6] observed_missing [OF chainConfig_baseSepolia]
    by (simp add: empty_polls_def balances_ok_def response_ok_def)
  then show ?thesis
    using wait_loop_success [where i = 0 and polls = empty_polls and b = "Fin 0"
        and thr = "Fin 0" and chn = "''baseSepolia''" and acct = example_account,
        OF _ _ chainConfig_baseSepolia]
    by (simp add: waitForGatewayBalance_def num_ge_def)
qed

subsection \<open>Phases of a transfer\<close>

lemma bind_run_simps [simp]:
  "bind_run None f = None"
  "bind_run (Some (t, Inl e)) f = Some (t, Inl e)"
  "bind_run (Some (t, Inr x)) f =
     (case f x of None \<Rightarrow> None | Some (t', r) \<Rightarrow> Some (t @ t', r))"
  by (simp_all add: bind_run_def)

lemma catch_run_simps [simp]:
  "catch_run None h = None"
  "catch_run (Some (t, Inr x)) h = Some (t, Inr x)"
  "catch_run (Some (t, Inl e)) h =
     (case h e of None \<Rightarrow> None | Some (t', r) \<Rightarrow> Some (t @ t', r))"
  by (simp_all add: catch_run_def)

lemmas run_defs = lift_def perform_def return_def throw_def

lemma milestones_simps [simp]:
  "milestones [] = []"
  "milestones (t @ t') = milestones t @ milestones t'"
  "milestones (e # t) =
     (if is_recovery_effect e \<or> is_transfer_effect e then e # milestones t else milestones t)"
  by (simp_all add: milestones_def)

lemma transfer_effects_simps [simp]:
  "transfer_effects [] = []"
  "transfer_effects (t @ t') = transfer_effects t @ transfer_effects t'"
  "transfer_effects (e # t) =
     (if is_transfer_effect e then e # transfer_effects t else transfer_effects t)"
  by (simp_all add: transfer_effects_def)

lemma transfer_effects_milestones:
  "milestones t = [] \<Longrightarrow> transfer_effects t = []"
  by (auto simp add: milestones_def transfer_effects_def filter_empty_conv)

lemma getVaultBalances_milestones:
  "\<exists>t r. getVaultBalances acct ks fetched = Some (t, r) \<and> milestones t = []"
  by (auto simp add: getVaultBalances_def bind_run_def run_defs
      split: sum.splits option.splits prod.splits if_splits balances_json.splits
        balances_field.splits)

lemma signBurnIntent_cases:
  "signBurnIntent env s d v =
     (case typedDataOf env s d v of
        Inl e \<Rightarrow> Some ([], Inl e)
      | Inr td \<Rightarrow>
          (case signTypedData env td of
             Inl e \<Rightarrow> Some ([SignTypedData td], Inl e)
           | Inr sg \<Rightarrow> Some ([SignTypedData td], Inr (td, sg))))"
  by (simp add: signBurnIntent_def typedDataOf_def bind_result_def run_defs
      split: sum.splits)

lemma requestAttestation_cases:
  "\<exists>r. requestAttestation env td sg = Some ([FetchTransfer (message td) sg], r)"
  by (auto simp add: requestAttestation_def bind_run_def run_defs
      split: sum.splits option.splits transfer_json.splits)

lemma mintOnDestination_cases:
  "\<exists>post r. mintOnDestination env s d att osig = Some (GatewayMint d att osig # post, r) \<and>
      milestones post = []"
proof -
  obtain t r where g: "getVaultBalances (account env) (Some [s, d]) (vaultBalancesAfter env) =
      Some (t, r)" "milestones t = []"
    using getVaultBalances_milestones by blast
  show ?thesis
    unfolding mintOnDestination_def
    by (cases "gatewayMintOutcome env"; cases "mintWaitOutcome env"; cases r;
        cases "walletBalancesAfter env")
       (simp_all add: g run_defs)
qed


lemma wait_loop_milestones:
  assumes "0 < interval"
  shows "\<exists>w r. wait_loop acct chn thr interval timeout polls i t acc = Some (acc @ w, r) \<and>
           milestones w = []"
proof (induction "timeout - t" arbitrary: i t acc rule: less_induct)
  case less
  obtain effs r where g: "getVaultBalances acct (Some [chn]) (response (polls i)) = Some (effs, r)"
      "milestones effs = []"
    using getVaultBalances_milestones by blast
  show ?case
  proof (cases r)
    case (Inl e)
    then show ?thesis using g by (subst wait_loop.simps) simp
  next
    case (Inr entries)
    show ?thesis
    proof (cases "num_ge (observed_balance chn entries) thr \<or> timeout \<le> t + latency (polls i)")
      case True
      then show ?thesis using g Inr by (subst wait_loop.simps) auto
    next
      case False
      then have "timeout - (t + latency (polls i) + interval) < timeout - t"
        using assms by arith
      from less [OF this, of "Suc i" "acc @ effs @ [Sleep interval]"]
      obtain w r' where "wait_loop acct chn thr interval timeout polls (Suc i)
          (t + latency (polls i) + interval) (acc @ effs @ [Sleep interval]) =
          Some ((acc @ effs @ [Sleep interval]) @ w, r')" "milestones w = []"
        by blast
      then show ?thesis
        using g Inr False
        by (subst wait_loop.simps) (auto intro!: exI [of _ "effs @ [Sleep interval] @ w"])
    qed
  qed
qed

lemma waitForGatewayBalance_milestones:
  assumes "0 < interval"
  shows "\<exists>w r. waitForGatewayBalance acct polls chn thr
             \<lparr>pollIntervalMs = Some interval, timeoutMs = Some timeout\<rparr> = Some (w, r) \<and>
           milestones w = [WaitForGatewayBalance chn thr interval timeout]"
proof -
  obtain w r where "wait_loop acct chn thr interval timeout polls 0 0
      [WaitForGatewayBalance chn thr interval timeout] =
      Some ([WaitForGatewayBalance chn thr interval timeout] @ w, r)" "milestones w = []"
    using wait_loop_milestones [OF assms] by blast
  then show ?thesis by (simp add: waitForGatewayBalance_def)
qed

lemma burnAndMint_shape:
  "\<exists>t r. burnAndMint env s d v = Some (t, r) \<and>
     (case typedDataOf env s d v of
        Inl e \<Rightarrow> t = [] \<and> r = Inl e
      | Inr td \<Rightarrow>
          (case signTypedData env td of
             Inl e \<Rightarrow> t = [SignTypedData td] \<and> r = Inl e
           | Inr sg \<Rightarrow>
               (\<exists>ar. requestAttestation env td sg = Some ([FetchTransfer (message td) sg], ar) \<and>
                  (case ar of
                     Inl e \<Rightarrow> t = [SignTypedData td, FetchTransfer (message td) sg] \<and> r = Inl e
                   | Inr (att, osig) \<Rightarrow>
                       (\<exists>post. mintOnDestination env s d att osig =
                                 Some (GatewayMint d att osig # post, r) \<and>
                          milestones post = [] \<and>
                          t = [SignTypedData td, FetchTransfer (message td) sg,
                               GatewayMint d att osig] @ post)))))"
proof (cases "typedDataOf env s d v")
  case (Inl e)
  then show ?thesis by (simp add: burnAndMint_def signBurnIntent_cases)
next
  case td: (Inr td)
  show ?thesis
  proof (cases "signTypedData env td")
    case (Inl e)
    then show ?thesis using td by (simp add: burnAndMint_def signBurnIntent_cases)
  next
    case sg: (Inr sg)
    obtain ar where ar: "requestAttestation env td sg = Some ([FetchTransfer (message td) sg], ar)"
      using requestAttestation_cases by blast
    show ?thesis
    proof (cases ar)
      case (Inl e)
      then show ?thesis using td sg ar by (simp add: burnAndMint_def signBurnIntent_cases)
    next
      case (Inr p)
      obtain att osig where p: "p = (att, osig)" by (cases p)
      obtain post r where m: "mintOnDestination env s d att osig =
          Some (GatewayMint d att osig # post, r)" "milestones post = []"
        using mintOnDestination_cases by blast
      show ?thesis
        using td sg ar Inr p m by (simp add: burnAndMint_def signBurnIntent_cases)
    qed
  qed
qed

subsection \<open>Validation\<close>

lemma unifiedTransfer_invalid_chain:
  assumes "chainToTransfer options \<notin> set validChains \<or> chainToTransfer options = ARC_CHAIN"
  shows "unifiedTransfer env options =
           throw (Error (''Invalid chain: '' @ chainToTransfer options @ ''. Valid EVM chains: ''
                          @ join '', '' validEvmChains) None)"
  unfolding unifiedTransfer_def using assms by (rule if_P)

lemma unifiedTransfer_invalid_amount:
  assumes "\<not> (chainToTransfer options \<notin> set validChains \<or> chainToTransfer options = ARC_CHAIN)"
    and "\<not> Number_isFinite (amount options) \<or> num_le (amount options) (Fin 0)"
  shows "unifiedTransfer env options =
           throw (Error ''Amount must be a positive number (USDC).'' None)"
  unfolding unifiedTransfer_def
  by (subst if_not_P [OF assms(1)]) (rule if_P [OF assms(2)])

text \<open>
  Claim C2. When the chain is not a chain key, or is \<open>arcTestnet\<close> (whatever the
  direction), or the amount is not finite or not positive, \<open>unifiedTransfer\<close> throws with
  an empty trace: no balance query, no signature, no attestation request and no mint has
  been attempted. The chain keys are the eight keys of \<open>chainConfigs\<close>.
\<close>

theorem unifiedTransfer_rejects:
  assumes "chainToTransfer options \<notin> set validChains \<or> chainToTransfer options = ''arcTestnet'' \<or>
           \<not> Number_isFinite (amount options) \<or> num_le (amount options) (Fin 0)"
  shows "unifiedTransfer env options =
           Some ([], Inl (if chainToTransfer options \<notin> set validChains \<or>
                             chainToTransfer options = ''arcTestnet''
                          then Error (''Invalid chain: '' @ chainToTransfer options @
                                 ''. Valid EVM chains: '' @ join '', '' validEvmChains) None
                          else Error ''Amount must be a positive number (USDC).'' None)) \<and>
         validChains = [''sepolia'', ''baseSepolia'', ''avalancheFuji'', ''arcTestnet'',
           ''hyperliquidEvmTestnet'', ''seiTestnet'', ''sonicTestnet'', ''worldchainSepolia'']"
proof (cases "chainToTransfer options \<notin> set validChains \<or> chainToTransfer options = ARC_CHAIN")
  case True
  from unifiedTransfer_invalid_chain [OF True, of env] True show ?thesis
    by (simp add: throw_def ARC_CHAIN_def validChains_eq)
next
  case False
  with assms have "\<not> Number_isFinite (amount options) \<or> num_le (amount options) (Fin 0)"
    by (auto simp add: ARC_CHAIN_def)
  from unifiedTransfer_invalid_amount [OF False this, of env] False show ?thesis
    by (auto simp add: throw_def ARC_CHAIN_def validChains_eq)
qed

theorem unifiedTransfer_rejects_witness:
  "(\<exists>e. unifiedTransfer example_env
      \<lparr>isEvmToArc = True, chainToTransfer = ''mainnet'', amount = Fin 1\<rparr> = Some ([], Inl e)) \<and>
   (\<exists>e. unifiedTransfer example_env
      \<lparr>isEvmToArc = True, chainToTransfer = ''arcTestnet'', amount = Fin 1\<rparr> = Some ([], Inl e)) \<and>
   (\<exists>e. unifiedTransfer example_env
      \<lparr>isEvmToArc = False, chainToTransfer = ''arcTestnet'', amount = Fin 1\<rparr> = Some ([], Inl e)) \<and>
   unifiedTransfer example_env
      \<lparr>isEvmToArc = True, chainToTransfer = ''baseSepolia'', amount = Fin 0\<rparr> =
     Some ([], Inl (Error ''Amount must be a positive number (USDC).'' None)) \<and>
   unifiedTransfer example_env
      \<lparr>isEvmToArc = True, chainToTransfer = ''baseSepolia'', amount = NaN\<rparr> =
     Some ([], Inl (Error ''Amount must be a positive number (USDC).'' None))"
proof -
  have 1: "\<exists>e. unifiedTransfer example_env
      \<lparr>isEvmToArc = True, chainToTransfer = ''mainnet'', amount = Fin 1\<rparr> = Some ([], Inl e)"
    by (rule exI, rule unifiedTransfer_rejects [THEN conjunct1]) (simp add: validChains_eq)
  have 2: "\<exists>e. unifiedTransfer example_env
      \<lparr>isEvmToArc = b, chainToTransfer = ''arcTestnet'', amount = Fin 1\<rparr> = Some ([], Inl e)"
    for b
    by (rule exI, rule unifiedTransfer_rejects [THEN conjunct1]) simp
  have a: "''baseSepolia'' \<in> set validChains" by (simp add: validChains_eq)
  have 3: "unifiedTransfer example_env
      \<lparr>isEvmToArc = True, chainToTransfer = ''baseSepolia'', amount = Fin 0\<rparr> =
     Some ([], Inl (Error ''Amount must be a positive number (USDC).'' None))"
    using unifiedTransfer_rejects
      [of "\<lparr>isEvmToArc = True, chainToTransfer = ''baseSepolia'', amount = Fin 0\<rparr>"
        example_env, THEN conjunct1] a
    by simp
  have 4: "unifiedTransfer example_env
      \<lparr>isEvmToArc = True, chainToTransfer = ''baseSepolia'', amount = NaN\<rparr> =
     Some ([], Inl (Error ''Amount must be a positive number (USDC).'' None))"
    using unifiedTransfer_rejects
      [of "\<lparr>isEvmToArc = True, chainToTransfer = ''baseSepolia'', amount = NaN\<rparr>"
        example_env, THEN conjunct1] a
    by simp
  show ?thesis using 1 2 3 4 by blast
qed

subsection \<open>Shape of a run\<close>

lemma bind_run_return: "bind_run (Some ([], Inr x)) f = f x"
  by (cases "f x") (auto simp add: bind_run_def)

lemma chainConfig_valid:
  assumes "c \<in> set validChains"
  shows "\<exists>cfg. chainConfig c = Inr cfg"
proof -
  from assms have "map_of chainConfigs c \<noteq> None"
    unfolding validChains_def by (simp add: map_of_eq_None_iff)
  then show ?thesis by (auto simp add: chainConfig_def)
qed

lemma ARC_CHAIN_valid: "ARC_CHAIN \<in> set validChains"
  by (simp add: validChains_eq ARC_CHAIN_def)

lemma valid_request_amount:
  assumes "valid_request options"
  shows "\<exists>a. amount options = Fin a \<and> 0 < a"
  using assms by (cases "amount options") (auto simp add: valid_request_def)

lemma unifiedTransfer_valid:
  assumes "valid_request options" and "amount options = Fin a"
    and "chainConfig (sourceChainOf options) = Inr sc"
    and "chainConfig (destChainOf options) = Inr dc"
  shows "unifiedTransfer env options =
     bind_run
       (getVaultBalances (account env) (Some [sourceChainOf options, destChainOf options])
          (vaultBalancesBefore env))
       (\<lambda>_. bind_run
          (perform (LogWalletBalances (sourceChainOf options) (destChainOf options))
             (walletBalancesBefore env))
       (\<lambda>_. bind_run
          (ensureGatewayBalance env (sourceChainOf options) sc
             (Math_round (a * 10 ^ USDC_DECIMALS)))
       (\<lambda>_. burnAndMint env (sourceChainOf options) (destChainOf options)
             (Math_round (a * 10 ^ USDC_DECIMALS)))))"
proof -
  have 1: "\<not> (chainToTransfer options \<notin> set validChains \<or> chainToTransfer options = ARC_CHAIN)"
    and 2: "\<not> (\<not> Number_isFinite (amount options) \<or> num_le (amount options) (Fin 0))"
    using assms(1) by (auto simp add: valid_request_def)
  have tv: "lift (transferValueOf (amount options)) =
      Some ([], Inr (Math_round (a * 10 ^ USDC_DECIMALS)))"
    by (simp add: assms(2) transferValueOf_def lift_def)
  have s: "lift (chainConfig (sourceChainOf options)) = Some ([], Inr sc)"
    and d: "lift (chainConfig (destChainOf options)) = Some ([], Inr dc)"
    by (simp_all add: assms(3,4) lift_def)
  show ?thesis
    unfolding unifiedTransfer_def
    apply (subst if_not_P [OF 1])
    apply (subst if_not_P [OF 2])
    apply (simp only: tv bind_run_return Let_def sourceChainOf_def [symmetric]
        destChainOf_def [symmetric] s d burnAndMint_def [symmetric])
    done
qed


lemma required_balance_units:
  "required_balance tv * 10 ^ 6 = of_int (tv + 10000)"
  by (simp add: required_balance_def USDC_DECIMALS_def field_simps)

lemma Math_ceil_required: "Math_ceil (required_balance tv * 10 ^ 6) = tv + 10000"
  unfolding required_balance_units Math_ceil_def by (rule ceiling_of_int)

lemma Math_ceil_required_numeral: "Math_ceil (required_balance tv * 1000000) = tv + 10000"
  using Math_ceil_required [of tv] by simp

lemma ensureGatewayBalance_cases:
  "ensureGatewayBalance env s sc tv =
     (case balancesFetch env of
        Inl e \<Rightarrow> Some ([FetchBalances [(domainId sc, account env)]], Inl e)
      | Inr res \<Rightarrow>
          (case available_balance (domainId sc) (body res) of
             Inl e \<Rightarrow> Some ([FetchBalances [(domainId sc, account env)]], Inl e)
           | Inr available \<Rightarrow>
               if num_lt available (Fin (required_balance tv)) then
                 (case depositOutcome env of
                    Inl e \<Rightarrow>
                      Some ([FetchBalances [(domainId sc, account env)],
                             DepositToGateway [s] (tv + 10000)],
                            Inl (DepositFailed s e))
                  | Inr _ \<Rightarrow>
                      (case waitForGatewayBalance (account env) (waiterPolls env) s
                              (Fin (required_balance tv))
                              \<lparr>pollIntervalMs = Some 30000, timeoutMs = Some (25 * 60 * 1000)\<rparr> of
                         None \<Rightarrow> None
                       | Some (w, Inl e) \<Rightarrow>
                           Some ([FetchBalances [(domainId sc, account env)],
                                  DepositToGateway [s] (tv + 10000)] @ w,
                                 Inl (DepositFailed s e))
                       | Some (w, Inr _) \<Rightarrow>
                           Some ([FetchBalances [(domainId sc, account env)],
                                  DepositToGateway [s] (tv + 10000)] @ w,
                                 Inr ())))
               else Some ([FetchBalances [(domainId sc, account env)]], Inr ())))"
  by (simp add: ensureGatewayBalance_def run_defs Math_ceil_required_numeral
      split: sum.splits option.splits prod.splits)


lemma transfer_effects_via_milestones:
  "transfer_effects t = filter is_transfer_effect (milestones t)"
  by (induction t) simp_all

lemma ensureGatewayBalance_total:
  "\<exists>t r. ensureGatewayBalance env s sc tv = Some (t, r) \<and> transfer_effects t = []"
proof -
  obtain w wr where w: "waitForGatewayBalance (account env) (waiterPolls env) s
      (Fin (required_balance tv))
      \<lparr>pollIntervalMs = Some 30000, timeoutMs = Some (25 * 60 * 1000)\<rparr> = Some (w, wr)"
      "milestones w = [WaitForGatewayBalance s (Fin (required_balance tv)) 30000 (25 * 60 * 1000)]"
    using waitForGatewayBalance_milestones [of 30000] by (metis zero_less_numeral)
  then have "transfer_effects w = []"
    by (simp add: transfer_effects_via_milestones)
  then show ?thesis
    using w(1)
    by (auto simp add: ensureGatewayBalance_cases split: sum.splits)
qed

lemma unifiedTransfer_shape:
  assumes "valid_request options" and "amount options = Fin a"
    and "chainConfig (sourceChainOf options) = Inr sc"
  shows "\<exists>pre t r. unifiedTransfer env options = Some (pre @ t, r) \<and> transfer_effects pre = [] \<and>
           (t = [] \<and> (\<exists>e. r = Inl e) \<or>
            burnAndMint env (sourceChainOf options) (destChainOf options)
              (Math_round (a * 10 ^ USDC_DECIMALS)) = Some (t, r))"
proof -
  have "destChainOf options \<in> set validChains"
    using assms(1) ARC_CHAIN_valid by (simp add: destChainOf_def valid_request_def)
  then obtain dc where dc: "chainConfig (destChainOf options) = Inr dc"
    using chainConfig_valid by blast
  note u = unifiedTransfer_valid [OF assms(1,2,3) dc, of env]
  obtain t0 r0 where g: "getVaultBalances (account env)
      (Some [sourceChainOf options, destChainOf options]) (vaultBalancesBefore env) = Some (t0, r0)"
      "milestones t0 = []"
    using getVaultBalances_milestones by blast
  obtain t2 r2 where e: "ensureGatewayBalance env (sourceChainOf options) sc
      (Math_round (a * 10 ^ USDC_DECIMALS)) = Some (t2, r2)" "transfer_effects t2 = []"
    using ensureGatewayBalance_total by blast
  obtain t3 r3 where b: "burnAndMint env (sourceChainOf options) (destChainOf options)
      (Math_round (a * 10 ^ USDC_DECIMALS)) = Some (t3, r3)"
    using burnAndMint_shape by blast
  have t0: "transfer_effects t0 = []" using g(2) by (rule transfer_effects_milestones)
  show ?thesis
  proof (cases r0)
    case (Inl e)
    then show ?thesis using u g t0 by (intro exI [of _ t0] exI [of _ "[]"]) simp
  next
    case r0: (Inr es)
    show ?thesis
    proof (cases "walletBalancesBefore env")
      case (Inl e)
      then show ?thesis
        using u g t0 r0
        by (intro exI [of _ "t0 @ [LogWalletBalances (sourceChainOf options)
              (destChainOf options)]"] exI [of _ "[]"])
           (simp add: perform_def)
    next
      case w: (Inr x)
      show ?thesis
      proof (cases r2)
        case (Inl e')
        then show ?thesis
          using u g t0 r0 w e
          by (intro exI [of _ "t0 @ [LogWalletBalances (sourceChainOf options)
                (destChainOf options)] @ t2"] exI [of _ "[]"])
             (simp add: perform_def)
      next
        case (Inr y)
        then show ?thesis
          using u g t0 r0 w e b
          by (intro exI [of _ "t0 @ [LogWalletBalances (sourceChainOf options)
                (destChainOf options)] @ t2"] exI [of _ t3] exI [of _ r3])
             (simp add: perform_def)
      qed
    qed
  qed
qed

subsection \<open>Attestation exchange\<close>

lemma requestAttestation_not_ok:
  assumes "transferFetch env = Inr resp" and "\<not> response_ok (transfer_status resp)"
  shows "requestAttestation env td sg =
     Some ([FetchTransfer (message td) sg],
           Inl (Error (''Gateway API error: '' @ string_of_nat (transfer_status resp) @ '' ''
                        @ transfer_text resp) None))"
  using assms by (simp add: requestAttestation_def run_defs)

lemma requestAttestation_missing:
  assumes "transferFetch env = Inr resp" and "response_ok (transfer_status resp)"
    and "\<not> has_attestation (transfer_json resp)"
  shows "requestAttestation env td sg =
     Some ([FetchTransfer (message td) sg],
           Inl (if transfer_json resp = TransferJsonInvalid then SyntaxError
                else missing_attestation))"
  using assms
  by (cases "transfer_json resp" rule: has_attestation.cases)
     (auto simp add: requestAttestation_def run_defs split: option.splits)

lemma burnAndMint_no_mint:
  assumes "burnAndMint env s d v = Some (t, r)"
    and "\<And>td sg. \<exists>e. requestAttestation env td sg = Some ([FetchTransfer (message td) sg], Inl e)"
  shows "(\<forall>d' a' s'. GatewayMint d' a' s' \<notin> set t) \<and>
         ((\<exists>i sg. FetchTransfer i sg \<in> set t) \<longrightarrow>
            (\<exists>td sg e. requestAttestation env td sg =
               Some ([FetchTransfer (message td) sg], Inl e) \<and> r = Inl e))"
proof -
  from burnAndMint_shape [of env s d v] assms(1)
  have sh: "(case typedDataOf env s d v of
        Inl e \<Rightarrow> t = [] \<and> r = Inl e
      | Inr td \<Rightarrow>
          (case signTypedData env td of
             Inl e \<Rightarrow> t = [SignTypedData td] \<and> r = Inl e
           | Inr sg \<Rightarrow>
               (\<exists>ar. requestAttestation env td sg = Some ([FetchTransfer (message td) sg], ar) \<and>
                  (case ar of
                     Inl e \<Rightarrow> t = [SignTypedData td, FetchTransfer (message td) sg] \<and> r = Inl e
                   | Inr (att, osig) \<Rightarrow>
                       (\<exists>post. mintOnDestination env s d att osig =
                                 Some (GatewayMint d att osig # post, r) \<and>
                          milestones post = [] \<and>
                          t = [SignTypedData td, FetchTransfer (message td) sg,
                               GatewayMint d att osig] @ post)))))"
    by auto
  show ?thesis
  proof (cases "typedDataOf env s d v")
    case (Inl e)
    with sh show ?thesis by simp
  next
    case td: (Inr td)
    show ?thesis
    proof (cases "signTypedData env td")
      case (Inl e)
      with sh td show ?thesis by simp
    next
      case sg: (Inr sg)
      from assms(2) [of td sg] obtain e where
        e: "requestAttestation env td sg = Some ([FetchTransfer (message td) sg], Inl e)"
        by blast
      with sh td sg have "t = [SignTypedData td, FetchTransfer (message td) sg]" "r = Inl e"
        by auto
      with e show ?thesis by auto
    qed
  qed
qed

subsection \<open>Typed data of a transfer\<close>

lemma addressToBytes32_isAddress:
  assumes "isAddress a"
  shows "addressToBytes32 a = Inr (canonical a)"
proof -
  from assms obtain bs where "getBytes a = Inr bs" "length bs = 20"
    by (auto simp add: isAddress_def split: sum.splits)
  from addressToBytes32_pads [OF this] show ?thesis by (simp add: canonical_def)
qed

lemma isAddress_constants:
  "isAddress GATEWAY_WALLET_ADDRESS" "isAddress GATEWAY_MINTER_ADDRESS" "isAddress ZeroAddress"
  by (simp_all add: isAddress_def getBytes_def hex_val_def GATEWAY_WALLET_ADDRESS_def
      GATEWAY_MINTER_ADDRESS_def ZeroAddress_def)

lemma isAddress_usdc_table: "list_all (\<lambda>(k, c). isAddress (usdcAddress c)) chainConfigs"
  by (simp add: chainConfigs_def isAddress_def getBytes_def hex_val_def)

lemma isAddress_usdc:
  assumes "chainConfig k = Inr c"
  shows "isAddress (usdcAddress c)"
proof -
  from assms have "map_of chainConfigs k = Some c"
    by (simp add: chainConfig_def split: option.splits)
  then have "(k, c) \<in> set chainConfigs" by (rule map_of_SomeD)
  with isAddress_usdc_table show ?thesis by (auto simp add: list_all_iff)
qed

lemma canonical_ZeroAddress: "canonical ZeroAddress = ''0x'' @ replicate 64 CHR ''0''"
  by (simp add: canonical_def ZeroAddress_def toLowerCase_def toLowerChar_def
      numeral_eq_Suc)


lemma typedDataOf_valid:
  assumes "chainConfig s = Inr sc" and "chainConfig d = Inr dc" and "isAddress (account env)"
  shows "typedDataOf env s d v =
     Inr \<lparr>types = [(''TransferSpec'', TransferSpec), (''BurnIntent'', BurnIntent)],
          typed_domain = domain,
          primaryType = ''BurnIntent'',
          message =
            \<lparr>maxBlockHeight = MaxUint256,
             maxFee = MAX_FEE,
             spec =
               \<lparr>version = 1,
                sourceDomain = domainId sc,
                destinationDomain = domainId dc,
                sourceContract = canonical GATEWAY_WALLET_ADDRESS,
                destinationContract = canonical GATEWAY_MINTER_ADDRESS,
                sourceToken = canonical (usdcAddress sc),
                destinationToken = canonical (usdcAddress dc),
                sourceDepositor = canonical (account env),
                destinationRecipient = canonical (account env),
                sourceSigner = canonical (account env),
                destinationCaller = canonical ZeroAddress,
                value = v,
                salt = hexlify (randomBytes32 env),
                hookData = ''0x''\<rparr>\<rparr>\<rparr>"
  using assms isAddress_usdc [OF assms(1)] isAddress_usdc [OF assms(2)]
  by (simp add: typedDataOf_def createBurnIntent_def burnIntentTypedData_def bind_result_def
      addressToBytes32_isAddress isAddress_constants)

lemma typedDataOf_fields:
  assumes "typedDataOf env s d v = Inr td"
  shows "maxBlockHeight (message td) = MaxUint256 \<and> maxFee (message td) = MAX_FEE \<and>
         value (spec (message td)) = v \<and> hookData (spec (message td)) = ''0x'' \<and>
         destinationCaller (spec (message td)) = canonical ZeroAddress \<and>
         typed_domain td = domain \<and> primaryType td = ''BurnIntent'' \<and>
         types td = [(''TransferSpec'', TransferSpec), (''BurnIntent'', BurnIntent)]"
proof -
  from assms obtain intent where
    i: "createBurnIntent s d v (account env) None (randomBytes32 env) = Inr intent"
    and t: "burnIntentTypedData intent = Inr td"
    by (auto simp add: typedDataOf_def bind_result_def split: sum.splits)
  from i have f: "maxBlockHeight intent = MaxUint256" "maxFee intent = MAX_FEE"
      "value (spec intent) = v" "hookData (spec intent) = ''0x''"
      "destinationCaller (spec intent) = ZeroAddress"
    by (auto simp add: createBurnIntent_def split: sum.splits)
  from t f show ?thesis
    by (auto simp add: burnIntentTypedData_def bind_result_def
        addressToBytes32_isAddress isAddress_constants split: sum.splits)
qed

subsection \<open>Outcomes of a transfer\<close>

lemma not_in_transfer_effects:
  assumes "transfer_effects t = []" and "is_transfer_effect e"
  shows "e \<notin> set t"
  using assms by (auto simp add: transfer_effects_def filter_empty_conv)

lemma not_in_milestones:
  assumes "milestones t = []" and "is_recovery_effect e \<or> is_transfer_effect e"
  shows "e \<notin> set t"
  using assms by (auto simp add: milestones_def filter_empty_conv)

lemma unifiedTransfer_invalid:
  assumes "\<not> valid_request options"
  shows "\<exists>e. unifiedTransfer env options = Some ([], Inl e)"
proof (cases "chainToTransfer options \<notin> set validChains \<or> chainToTransfer options = ARC_CHAIN")
  case True
  from unifiedTransfer_invalid_chain [OF True, of env] show ?thesis by (simp add: throw_def)
next
  case False
  with assms have "\<not> Number_isFinite (amount options) \<or> num_le (amount options) (Fin 0)"
    by (auto simp add: valid_request_def)
  from unifiedTransfer_invalid_amount [OF False this, of env] show ?thesis
    by (simp add: throw_def)
qed

lemma sourceChainOf_valid:
  assumes "valid_request options"
  shows "\<exists>sc. chainConfig (sourceChainOf options) = Inr sc"
proof -
  have "sourceChainOf options \<in> set validChains"
    using assms ARC_CHAIN_valid by (simp add: sourceChainOf_def valid_request_def)
  then show ?thesis by (rule chainConfig_valid)
qed

lemma unifiedTransfer_outcomes [case_names early unsigned unattested minted]:
  obtains
    pre e where "unifiedTransfer env options = Some (pre, Inl e)" "transfer_effects pre = []"
  | a pre td e where "valid_request options" "amount options = Fin a"
      "typedDataOf env (sourceChainOf options) (destChainOf options)
         (Math_round (a * 10 ^ USDC_DECIMALS)) = Inr td"
      "signTypedData env td = Inl e"
      "unifiedTransfer env options = Some (pre @ [SignTypedData td], Inl e)"
      "transfer_effects pre = []"
  | a pre td sg e where "valid_request options" "amount options = Fin a"
      "typedDataOf env (sourceChainOf options) (destChainOf options)
         (Math_round (a * 10 ^ USDC_DECIMALS)) = Inr td"
      "signTypedData env td = Inr sg"
      "requestAttestation env td sg = Some ([FetchTransfer (message td) sg], Inl e)"
      "unifiedTransfer env options =
         Some (pre @ [SignTypedData td, FetchTransfer (message td) sg], Inl e)"
      "transfer_effects pre = []"
  | a pre td sg att osig post r where "valid_request options" "amount options = Fin a"
      "typedDataOf env (sourceChainOf options) (destChainOf options)
         (Math_round (a * 10 ^ USDC_DECIMALS)) = Inr td"
      "signTypedData env td = Inr sg"
      "requestAttestation env td sg = Some ([FetchTransfer (message td) sg], Inr (att, osig))"
      "mintOnDestination env (sourceChainOf options) (destChainOf options) att osig =
         Some (GatewayMint (destChainOf options) att osig # post, r)"
      "milestones post = []"
      "unifiedTransfer env options =
         Some (pre @ [SignTypedData td, FetchTransfer (message td) sg,
                      GatewayMint (destChainOf options) att osig] @ post, r)"
      "transfer_effects pre = []"
proof (cases "valid_request options")
  case False
  from unifiedTransfer_invalid [OF False, of env] obtain e where
    "unifiedTransfer env options = Some ([], Inl e)" by blast
  then show ?thesis using that(1) [of "[]" e] by simp
next
  case v: True
  obtain a where a: "amount options = Fin a" using valid_request_amount [OF v] by blast
  obtain sc where sc: "chainConfig (sourceChainOf options) = Inr sc"
    using sourceChainOf_valid [OF v] by blast
  let ?s = "sourceChainOf options" and ?d = "destChainOf options"
  let ?v = "Math_round (a * 10 ^ USDC_DECIMALS)"
  from unifiedTransfer_shape [OF v a sc, of env] obtain pre t r where
    u: "unifiedTransfer env options = Some (pre @ t, r)" and p: "transfer_effects pre = []"
    and c: "t = [] \<and> (\<exists>e. r = Inl e) \<or> burnAndMint env ?s ?d ?v = Some (t, r)"
    by blast
  from c show ?thesis
  proof
    assume "t = [] \<and> (\<exists>e. r = Inl e)"
    then show ?thesis using u p that(1) by auto
  next
    assume b: "burnAndMint env ?s ?d ?v = Some (t, r)"
    show ?thesis
    proof (cases "typedDataOf env ?s ?d ?v")
      case (Inl e)
      with burnAndMint_shape [of env ?s ?d ?v] b have "t = []" "r = Inl e" by auto
      then show ?thesis using u p that(1) by auto
    next
      case td: (Inr td)
      show ?thesis
      proof (cases "signTypedData env td")
        case (Inl e)
        with burnAndMint_shape [of env ?s ?d ?v] b td
        have "t = [SignTypedData td]" "r = Inl e" by auto
        then show ?thesis using u p v a td Inl that(2) by auto
      next
        case sg: (Inr sg)
        with burnAndMint_shape [of env ?s ?d ?v] b td
        obtain ar where ar: "requestAttestation env td sg =
            Some ([FetchTransfer (message td) sg], ar)"
          and k: "(case ar of
                     Inl e \<Rightarrow> t = [SignTypedData td, FetchTransfer (message td) sg] \<and> r = Inl e
                   | Inr (att, osig) \<Rightarrow>
                       (\<exists>post. mintOnDestination env ?s ?d att osig =
                                 Some (GatewayMint ?d att osig # post, r) \<and>
                          milestones post = [] \<and>
                          t = [SignTypedData td, FetchTransfer (message td) sg,
                               GatewayMint ?d att osig] @ post))"
          by auto
        show ?thesis
        proof (cases ar)
          case (Inl e)
          with k have "t = [SignTypedData td, FetchTransfer (message td) sg]" "r = Inl e"
            by auto
          then show ?thesis using u p v a td sg ar Inl that(3) by auto
        next
          case (Inr q)
          obtain att osig where q: "q = (att, osig)" by (cases q)
          with k Inr obtain post where
            "mintOnDestination env ?s ?d att osig = Some (GatewayMint ?d att osig # post, r)"
            "milestones post = []"
            "t = [SignTypedData td, FetchTransfer (message td) sg, GatewayMint ?d att osig] @ post"
            by auto
          then show ?thesis using u p v a td sg ar Inr q that(4) by auto
        qed
      qed
    qed
  qed
qed

subsection \<open>Failure of the attestation exchange\<close>

lemma no_transfer_effects:
  assumes "transfer_effects t = []"
  shows "GatewayMint d a s \<notin> set t" "FetchTransfer i sg \<notin> set t" "SignTypedData td \<notin> set t"
  using assms by (auto simp add: transfer_effects_def filter_empty_conv)

lemma no_milestones:
  assumes "milestones t = []"
  shows "GatewayMint d a s \<notin> set t" "FetchTransfer i sg \<notin> set t" "SignTypedData td \<notin> set t"
    "DepositToGateway cs n \<notin> set t" "WaitForGatewayBalance c thr iv tmo \<notin> set t"
  using assms by (auto simp add: milestones_def filter_empty_conv)

lemma requestAttestation_bad:
  assumes "transferFetch env = Inr resp"
    and "\<not> response_ok (transfer_status resp) \<or> \<not> has_attestation (transfer_json resp)"
  shows "\<exists>e. requestAttestation env td sg = Some ([FetchTransfer (message td) sg], Inl e)"
  using assms requestAttestation_not_ok [OF assms(1), of td sg]
    requestAttestation_missing [OF assms(1), of td sg]
  by (cases "response_ok (transfer_status resp)") auto

text \<open>
  Claim C5. When the transfer endpoint answers with a status outside 200..299, or with a
  2xx response whose body lacks the attestation or the operator signature (or is not even
  JSON), no run of \<open>unifiedTransfer\<close> submits a mint; and a run that made the attestation
  request ends with a thrown error. For a non-2xx status the message of that error is
  \<^verbatim>\<open>Gateway API error: \<close> followed by the status code, a space and the body of the response;
  for a 2xx response with a JSON body it is \<^verbatim>\<open>Missing attestation or signature in response\<close>.
\<close>

theorem unifiedTransfer_attestation_failure:
  assumes "transferFetch env = Inr resp"
    and "\<not> response_ok (transfer_status resp) \<or> \<not> has_attestation (transfer_json resp)"
  shows "\<exists>tr r. unifiedTransfer env options = Some (tr, r) \<and>
           (\<forall>d a s. GatewayMint d a s \<notin> set tr) \<and>
           ((\<exists>i sg. FetchTransfer i sg \<in> set tr) \<longrightarrow>
              (\<exists>e. r = Inl e) \<and>
              (\<not> response_ok (transfer_status resp) \<longrightarrow>
                 r = Inl (Error (''Gateway API error: '' @ string_of_nat (transfer_status resp)
                                  @ '' '' @ transfer_text resp) None)) \<and>
              (response_ok (transfer_status resp) \<and>
               transfer_json resp \<noteq> TransferJsonInvalid \<longrightarrow>
                 r = Inl missing_attestation))"
proof (cases rule: unifiedTransfer_outcomes [of env options])
  case (early pre e)
  then show ?thesis using no_transfer_effects [of pre] by simp
next
  case (unsigned a pre td e)
  then show ?thesis using no_transfer_effects [of pre] by simp
next
  case (unattested a pre td sg e)
  have "\<not> response_ok (transfer_status resp) \<Longrightarrow>
      e = Error (''Gateway API error: '' @ string_of_nat (transfer_status resp)
                                  @ '' '' @ transfer_text resp) None"
    using requestAttestation_not_ok [OF assms(1), of td sg] unattested(5) by simp
  moreover have "response_ok (transfer_status resp) \<Longrightarrow>
      transfer_json resp \<noteq> TransferJsonInvalid \<Longrightarrow> e = missing_attestation"
    using requestAttestation_missing [OF assms(1), of td sg] unattested(5) assms(2) by simp
  ultimately show ?thesis
    using unattested(6,7) no_transfer_effects [of pre] by simp
next
  case (minted a pre td sg att osig post r)
  with requestAttestation_bad [OF assms, of td sg] show ?thesis by simp
qed

subsection \<open>Runs whose first reads succeed\<close>

lemma getVaultBalances_two:
  assumes "chainConfig s = Inr sc" and "chainConfig d = Inr dc"
    and "balances_response_ok fetched"
  shows "\<exists>es. getVaultBalances acct (Some [s, d]) fetched =
           Some ([FetchBalances [(domainId sc, acct), (domainId dc, acct)]], Inr es)"
  using assms
  by (auto simp add: getVaultBalances_def balances_response_ok_def bind_result_def run_defs
      split: sum.splits balances_json.splits balances_field.splits)

lemma unifiedTransfer_after_reads:
  assumes "valid_request options" and "amount options = Fin a"
    and "chainConfig (sourceChainOf options) = Inr sc"
    and "chainConfig (destChainOf options) = Inr dc"
    and "reads_succeed env"
  shows "unifiedTransfer env options =
     (case ensureGatewayBalance env (sourceChainOf options) sc
             (Math_round (a * 10 ^ USDC_DECIMALS)) of
        None \<Rightarrow> None
      | Some (t2, Inl e) \<Rightarrow>
          Some ([FetchBalances [(domainId sc, account env), (domainId dc, account env)],
                 LogWalletBalances (sourceChainOf options) (destChainOf options)] @ t2, Inl e)
      | Some (t2, Inr _) \<Rightarrow>
          (case burnAndMint env (sourceChainOf options) (destChainOf options)
                  (Math_round (a * 10 ^ USDC_DECIMALS)) of
             None \<Rightarrow> None
           | Some (t3, r) \<Rightarrow>
               Some ([FetchBalances [(domainId sc, account env), (domainId dc, account env)],
                      LogWalletBalances (sourceChainOf options) (destChainOf options)]
                     @ t2 @ t3, r)))"
proof -
  obtain es where g: "getVaultBalances (account env)
      (Some [sourceChainOf options, destChainOf options]) (vaultBalancesBefore env) =
      Some ([FetchBalances [(domainId sc, account env), (domainId dc, account env)]], Inr es)"
    using getVaultBalances_two [OF assms(3,4)] assms(5) by (auto simp add: reads_succeed_def)
  have w: "walletBalancesBefore env = Inr ()" using assms(5) by (simp add: reads_succeed_def)
  show ?thesis
    unfolding unifiedTransfer_valid [OF assms(1-4)] g
    by (simp add: w perform_def split: option.splits sum.splits prod.splits)
qed




subsection \<open>Recovery by deposit\<close>

lemma Math_round_of_int: "Math_round (of_int n) = n"
  unfolding Math_round_def by (rule floor_unique) simp_all




lemma valid_request_baseSepolia:
  "0 < a \<Longrightarrow> valid_request \<lparr>isEvmToArc = b, chainToTransfer = ''baseSepolia'', amount = Fin a\<rparr>"
  by (simp add: valid_request_def validChains_eq ARC_CHAIN_def)

lemma sourceChainOf_evm:
  "sourceChainOf \<lparr>isEvmToArc = True, chainToTransfer = c, amount = x\<rparr> = c"
  "destChainOf \<lparr>isEvmToArc = True, chainToTransfer = c, amount = x\<rparr> = ''arcTestnet''"
  by (simp_all add: sourceChainOf_def destChainOf_def ARC_CHAIN_def)

lemma reads_succeed_example: "reads_succeed example_env" "reads_succeed dust_env"
  by (simp_all add: reads_succeed_def example_env_def dust_env_def balances_response_ok_def
      balances_ok_def response_ok_def)

lemma available_example:
  "balancesFetch example_env =
     Inr \<lparr>status = 200,
          body = JsonObject (Balances [\<lparr>item_domain = 6, item_balance = Some (Fin 5)\<rparr>]),
          stringified = []\<rparr>"
  "available_balance 6
     (JsonObject (Balances [\<lparr>item_domain = 6, item_balance = Some (Fin x)\<rparr>])) = Inr (Fin x)"
  "balancesFetch dust_env =
     Inr \<lparr>status = 200,
          body = JsonObject
            (Balances [\<lparr>item_domain = 6, item_balance = Some (Fin (343333 / 1000000))\<rparr>]),
          stringified = []\<rparr>"
  by (simp_all add: example_env_def dust_env_def balances_ok_def available_balance_def)




subsection \<open>Signature, attestation and mint\<close>

lemma destChainOf_valid:
  assumes "valid_request options"
  shows "\<exists>dc. chainConfig (destChainOf options) = Inr dc"
proof -
  have "destChainOf options \<in> set validChains"
    using assms ARC_CHAIN_valid by (simp add: destChainOf_def valid_request_def)
  then show ?thesis by (rule chainConfig_valid)
qed

lemma unifiedTransfer_sufficient:
  assumes "valid_request options" and "amount options = Fin a"
    and "chainConfig (sourceChainOf options) = Inr sc"
    and "chainConfig (destChainOf options) = Inr dc"
    and "reads_succeed env"
    and "balancesFetch env = Inr res"
    and "available_balance (domainId sc) (body res) = Inr available"
    and "\<not> num_lt available (Fin (required_balance (Math_round (a * 10 ^ USDC_DECIMALS))))"
  shows "\<exists>t r. burnAndMint env (sourceChainOf options) (destChainOf options)
                 (Math_round (a * 10 ^ USDC_DECIMALS)) = Some (t, r) \<and>
           unifiedTransfer env options =
             Some ([FetchBalances [(domainId sc, account env), (domainId dc, account env)],
                    LogWalletBalances (sourceChainOf options) (destChainOf options),
                    FetchBalances [(domainId sc, account env)]] @ t, r)"
proof -
  obtain t r where b: "burnAndMint env (sourceChainOf options) (destChainOf options)
      (Math_round (a * 10 ^ USDC_DECIMALS)) = Some (t, r)"
    using burnAndMint_shape by blast
  show ?thesis
    unfolding unifiedTransfer_after_reads [OF assms(1-5)]
    using assms(6-8) b by (simp add: ensureGatewayBalance_cases)
qed







lemma example_env_fields:
  "account example_env = example_account"
  "signTypedData example_env td = Inr ''0x5167''"
  "transferFetch example_env =
     Inr \<lparr>transfer_status = 200, transfer_text = [],
          transfer_json = TransferJsonObject (Some ''0xa77e'') (Some ''0x0b51'')\<rparr>"
  "depositOutcome example_env = Inl (Error ''Insufficient USDC balance'' None)"
  by (simp_all add: example_env_def)

lemma isAddress_example_account: "isAddress example_account"
  by (simp add: isAddress_def getBytes_def hex_val_def example_account_def)



subsection \<open>Failure of the mint\<close>

lemma unifiedTransfer_returns: "\<exists>tr r. unifiedTransfer env options = Some (tr, r)"
  by (cases rule: unifiedTransfer_outcomes [of env options]) blast+

lemma unifiedTransfer_signed:
  assumes "unifiedTransfer env options = Some (tr, r)" and "SignTypedData td \<in> set tr"
  shows "\<exists>a. amount options = Fin a \<and> 0 < a \<and>
           typedDataOf env (sourceChainOf options) (destChainOf options)
             (Math_round (a * 10 ^ USDC_DECIMALS)) = Inr td"
proof (cases rule: unifiedTransfer_outcomes [of env options])
  case (early pre e)
  with assms no_transfer_effects(3) [of pre td] show ?thesis by simp
next
  case (unsigned a pre td' e)
  with assms no_transfer_effects(3) [of pre td] have "td = td'" by auto
  moreover have "0 < a" using valid_request_amount [OF unsigned(1)] unsigned(2) by simp
  ultimately show ?thesis using unsigned(2,3) by blast
next
  case (unattested a pre td' sg e)
  with assms no_transfer_effects(3) [of pre td] have "td = td'" by auto
  moreover have "0 < a" using valid_request_amount [OF unattested(1)] unattested(2) by simp
  ultimately show ?thesis using unattested(2,3) by blast
next
  case (minted a pre td' sg att osig post r')
  with assms no_transfer_effects(3) [of pre td] no_milestones(3) [of post td]
  have "td = td'" by auto
  moreover have "0 < a" using valid_request_amount [OF minted(1)] minted(2) by simp
  ultimately show ?thesis using minted(2,3) by blast
qed

lemma mintOnDestination_fails:
  assumes "gatewayMintOutcome env = Inl err \<or>
           (\<exists>h. gatewayMintOutcome env = Inr h) \<and> mintWaitOutcome env = Inl err"
  shows "\<exists>t. mintOnDestination env s d att osig =
           Some (t, Inl (if error_code err = Some ''INSUFFICIENT_FUNDS''
                         then insufficient_gas d else err))"
  using assms by (auto simp add: mintOnDestination_def run_defs)

text \<open>
  Claim C6. When the mint step fails, that is, when \<open>gatewayMint\<close> throws or, after it,
  \<open>mintTx.wait()\<close> does, a run that submitted the mint ends as follows: if the \<open>code\<close> of the
  error is \<^verbatim>\<open>INSUFFICIENT_FUNDS\<close>, with a new error whose message names the destination chain
  and says that the burn/attestation succeeded; otherwise with the underlying error itself,
  unchanged.
\<close>

theorem unifiedTransfer_mint_failure:
  assumes "gatewayMintOutcome env = Inl err \<or>
           (\<exists>h. gatewayMintOutcome env = Inr h) \<and> mintWaitOutcome env = Inl err"
  shows "(\<exists>tr r. unifiedTransfer env options = Some (tr, r) \<and>
            ((\<exists>d a s. GatewayMint d a s \<in> set tr) \<longrightarrow>
               r = Inl (if error_code err = Some ''INSUFFICIENT_FUNDS''
                        then insufficient_gas (destChainOf options) else err))) \<and>
         insufficient_gas (destChainOf options) =
           Error (''Insufficient native token on '' @ destChainOf options @
                  '' to pay for gas. Your burn/attestation succeeded; you need a small amount of testnet native token on the destination chain to complete the mint.'')
             None"
proof -
  have "\<exists>tr r. unifiedTransfer env options = Some (tr, r) \<and>
            ((\<exists>d a s. GatewayMint d a s \<in> set tr) \<longrightarrow>
               r = Inl (if error_code err = Some ''INSUFFICIENT_FUNDS''
                        then insufficient_gas (destChainOf options) else err))"
  proof (cases rule: unifiedTransfer_outcomes [of env options])
    case (early pre e)
    then show ?thesis using no_transfer_effects(1) [of pre] by simp
  next
    case (unsigned a pre td e)
    then show ?thesis using no_transfer_effects(1) [of pre] by simp
  next
    case (unattested a pre td sg e)
    then show ?thesis using no_transfer_effects(1) [of pre] by simp
  next
    case (minted a pre td sg att osig post r)
    with mintOnDestination_fails [OF assms, of "sourceChainOf options" "destChainOf options"
        att osig]
    show ?thesis by auto
  qed
  then show ?thesis by (simp add: insufficient_gas_def)
qed


lemma unifiedTransfer_progress:
  assumes "valid_request options" and "amount options = Fin a"
    and "chainConfig (sourceChainOf options) = Inr sc"
    and "isAddress (account env)"
    and "reads_succeed env"
    and "balancesFetch env = Inr res"
    and "available_balance (domainId sc) (body res) = Inr available"
    and "\<not> num_lt available (Fin (required_balance (Math_round (a * 10 ^ USDC_DECIMALS))))"
    and "\<And>td. signTypedData env td = Inr sg"
  shows "\<exists>tr r td. unifiedTransfer env options = Some (tr, r) \<and>
           typedDataOf env (sourceChainOf options) (destChainOf options)
             (Math_round (a * 10 ^ USDC_DECIMALS)) = Inr td \<and>
           SignTypedData td \<in> set tr \<and> FetchTransfer (message td) sg \<in> set tr \<and>
           (\<forall>att osig. requestAttestation env td sg =
                Some ([FetchTransfer (message td) sg], Inr (att, osig)) \<longrightarrow>
              GatewayMint (destChainOf options) att osig \<in> set tr)"
proof -
  let ?s = "sourceChainOf options" and ?d = "destChainOf options"
  let ?v = "Math_round (a * 10 ^ USDC_DECIMALS)"
  obtain dc where dc: "chainConfig ?d = Inr dc" using destChainOf_valid [OF assms(1)] by blast
  obtain td where td: "typedDataOf env ?s ?d ?v = Inr td"
    using typedDataOf_valid [OF assms(3) dc assms(4)] by blast
  from unifiedTransfer_sufficient [OF assms(1,2,3) dc assms(5,6,7,8)] obtain t r where
    b: "burnAndMint env ?s ?d ?v = Some (t, r)"
    and u: "unifiedTransfer env options =
      Some ([FetchBalances [(domainId sc, account env), (domainId dc, account env)],
             LogWalletBalances ?s ?d, FetchBalances [(domainId sc, account env)]] @ t, r)"
    by blast
  from burnAndMint_shape [of env ?s ?d ?v] b td assms(9) [of td]
  obtain ar where ar: "requestAttestation env td sg = Some ([FetchTransfer (message td) sg], ar)"
    and k: "(case ar of
               Inl e \<Rightarrow> t = [SignTypedData td, FetchTransfer (message td) sg] \<and> r = Inl e
             | Inr (att, osig) \<Rightarrow>
                 (\<exists>post. mintOnDestination env ?s ?d att osig =
                           Some (GatewayMint ?d att osig # post, r) \<and>
                    milestones post = [] \<and>
                    t = [SignTypedData td, FetchTransfer (message td) sg,
                         GatewayMint ?d att osig] @ post))"
    by auto
  have "SignTypedData td \<in> set t \<and> FetchTransfer (message td) sg \<in> set t \<and>
      (\<forall>att osig. ar = Inr (att, osig) \<longrightarrow> GatewayMint ?d att osig \<in> set t)"
    using k by (cases ar) auto
  then show ?thesis using u td ar by auto
qed


lemma example_progress:
  assumes "account env = example_account" and "reads_succeed env"
    and "balancesFetch env = balancesFetch example_env"
    and "\<And>td. signTypedData env td = Inr ''0x5167''"
  shows "\<exists>tr r td. unifiedTransfer env
             \<lparr>isEvmToArc = True, chainToTransfer = ''baseSepolia'', amount = Fin 1\<rparr> =
           Some (tr, r) \<and>
           typedDataOf env ''baseSepolia'' ''arcTestnet'' 1000000 = Inr td \<and>
           SignTypedData td \<in> set tr \<and> FetchTransfer (message td) ''0x5167'' \<in> set tr \<and>
           (\<forall>att osig. requestAttestation env td ''0x5167'' =
                Some ([FetchTransfer (message td) ''0x5167''], Inr (att, osig)) \<longrightarrow>
              GatewayMint ''arcTestnet'' att osig \<in> set tr)"
proof -
  have m: "Math_round (1 * 10 ^ USDC_DECIMALS) = 1000000"
    using Math_round_of_int [of 1000000] by (simp add: USDC_DECIMALS_def)
  have q: "required_balance 1000000 = 101 / 100"
    by (simp add: required_balance_def USDC_DECIMALS_def)
  have v: "valid_request \<lparr>isEvmToArc = True, chainToTransfer = ''baseSepolia'', amount = Fin 1\<rparr>"
    by (rule valid_request_baseSepolia) simp
  have ia: "isAddress (account env)" by (simp add: assms(1) isAddress_example_account)
  have f: "balancesFetch env =
     Inr \<lparr>status = 200,
          body = JsonObject (Balances [\<lparr>item_domain = 6, item_balance = Some (Fin 5)\<rparr>]),
          stringified = []\<rparr>"
    by (simp add: assms(3) available_example(1))
  have av: "available_balance (domainId \<lparr>chain = chainWithRpc ''Base Sepolia'' 84532
        ''https://sepolia.base.org'',
      usdcAddress = ''0x036CbD53842c5426634e7929541eC2318f3dCF7e'', domainId = 6\<rparr>)
      (body \<lparr>status = 200,
          body = JsonObject (Balances [\<lparr>item_domain = 6, item_balance = Some (Fin 5)\<rparr>]),
          stringified = []\<rparr>) = Inr (Fin 5)"
    by (simp add: available_example(2))
  have nl: "\<not> num_lt (Fin 5) (Fin (required_balance (Math_round (1 * 10 ^ USDC_DECIMALS))))"
    unfolding m q by simp
  show ?thesis
    using unifiedTransfer_progress
      [where options = "\<lparr>isEvmToArc = True, chainToTransfer = ''baseSepolia'', amount = Fin 1\<rparr>"
         and env = env and a = 1 and available = "Fin 5" and sg = "''0x5167''",
       unfolded sourceChainOf_evm,
       OF v _ chainConfig_baseSepolia ia assms(2) f av nl assms(4), unfolded m]
    by simp
qed

lemma string_of_nat_400: "string_of_nat 400 = ''400''"
  by code_simp

theorem unifiedTransfer_attestation_failure_witness:
  "\<exists>tr. unifiedTransfer rejecting_env
       \<lparr>isEvmToArc = True, chainToTransfer = ''baseSepolia'', amount = Fin 1\<rparr> =
       Some (tr, Inl (Error ''Gateway API error: 400 bad request'' None)) \<and>
     (\<exists>i. FetchTransfer i ''0x5167'' \<in> set tr) \<and>
     (\<forall>d a s. GatewayMint d a s \<notin> set tr)"
proof -
  let ?o = "\<lparr>isEvmToArc = True, chainToTransfer = ''baseSepolia'', amount = Fin 1\<rparr>"
  have t: "transferFetch rejecting_env =
      Inr \<lparr>transfer_status = 400, transfer_text = ''bad request'',
           transfer_json = TransferJsonNull\<rparr>"
    by (simp add: rejecting_env_def)
  have n: "\<not> response_ok (transfer_status \<lparr>transfer_status = 400, transfer_text = ''bad request'',
           transfer_json = TransferJsonNull\<rparr>) \<or>
      \<not> has_attestation (transfer_json \<lparr>transfer_status = 400, transfer_text = ''bad request'',
           transfer_json = TransferJsonNull\<rparr>)"
    by (simp add: response_ok_def)
  from example_progress [of rejecting_env] obtain tr r i where
    u: "unifiedTransfer rejecting_env ?o = Some (tr, r)"
    and i: "FetchTransfer i ''0x5167'' \<in> set tr"
    by (auto simp add: rejecting_env_def example_env_fields reads_succeed_def
        balances_response_ok_def balances_ok_def response_ok_def example_env_def)
  from unifiedTransfer_attestation_failure [OF t n, of ?o] u i
  have "(\<forall>d a s. GatewayMint d a s \<notin> set tr) \<and>
      r = Inl (Error ''Gateway API error: 400 bad request'' None)"
    by (auto simp add: response_ok_def string_of_nat_400)
  with u i show ?thesis by blast
qed

theorem unifiedTransfer_mint_failure_witness:
  "(\<exists>tr. unifiedTransfer gasless_env
       \<lparr>isEvmToArc = True, chainToTransfer = ''baseSepolia'', amount = Fin 1\<rparr> =
       Some (tr, Inl (Error ''Insufficient native token on arcTestnet to pay for gas. Your burn/attestation succeeded; you need a small amount of testnet native token on the destination chain to complete the mint.'' None)) \<and>
     GatewayMint ''arcTestnet'' ''0xa77e'' ''0x0b51'' \<in> set tr) \<and>
   (\<exists>tr. unifiedTransfer reverting_env
       \<lparr>isEvmToArc = True, chainToTransfer = ''baseSepolia'', amount = Fin 1\<rparr> =
       Some (tr, Inl (Error ''execution reverted'' (Some ''CALL_EXCEPTION''))) \<and>
     GatewayMint ''arcTestnet'' ''0xa77e'' ''0x0b51'' \<in> set tr)"
proof -
  let ?o = "\<lparr>isEvmToArc = True, chainToTransfer = ''baseSepolia'', amount = Fin 1\<rparr>"
  have ra: "requestAttestation env td sg =
      Some ([FetchTransfer (message td) sg], Inr (''0xa77e'', ''0x0b51''))"
    if "transferFetch env = transferFetch example_env" for env td sg
    using that by (simp add: requestAttestation_def run_defs example_env_fields response_ok_def)
  have g: "gatewayMintOutcome gasless_env =
      Inl (Error ''insufficient funds for intrinsic transaction cost'' (Some ''INSUFFICIENT_FUNDS''))"
    and rv: "gatewayMintOutcome reverting_env =
      Inl (Error ''execution reverted'' (Some ''CALL_EXCEPTION''))"
    by (simp_all add: gasless_env_def reverting_env_def)
  from example_progress [of gasless_env] ra [of gasless_env] obtain tr r where
    u: "unifiedTransfer gasless_env ?o = Some (tr, r)"
    and i: "GatewayMint ''arcTestnet'' ''0xa77e'' ''0x0b51'' \<in> set tr"
    by (auto simp add: gasless_env_def example_env_fields reads_succeed_def
        balances_response_ok_def balances_ok_def response_ok_def example_env_def)
  from unifiedTransfer_mint_failure [of gasless_env, OF disjI1, OF g, of ?o, THEN conjunct1] u i
  have 1: "r = Inl (insufficient_gas ''arcTestnet'')"
    by (auto simp add: sourceChainOf_evm)
  from example_progress [of reverting_env] ra [of reverting_env] obtain tr' r' where
    u': "unifiedTransfer reverting_env ?o = Some (tr', r')"
    and i': "GatewayMint ''arcTestnet'' ''0xa77e'' ''0x0b51'' \<in> set tr'"
    by (auto simp add: reverting_env_def example_env_fields reads_succeed_def
        balances_response_ok_def balances_ok_def response_ok_def example_env_def)
  from unifiedTransfer_mint_failure [of reverting_env, OF disjI1, OF rv, of ?o, THEN conjunct1]
    u' i'
  have 2: "r' = Inl (Error ''execution reverted'' (Some ''CALL_EXCEPTION''))"
    by auto
  show ?thesis
    using u i 1 u' i' 2 by (auto simp add: insufficient_gas_def)
qed

subsection \<open>Fields of the burn intent\<close>



lemma example_env_progress:
  "\<exists>tr r td. unifiedTransfer example_env
             \<lparr>isEvmToArc = True, chainToTransfer = ''baseSepolia'', amount = Fin 1\<rparr> =
           Some (tr, r) \<and> SignTypedData td \<in> set tr"
  using example_progress [of example_env]
  by (auto simp add: example_env_fields reads_succeed_example)



text \<open>
  Claim C9. In every run, the typed data that is signed has \<open>maxBlockHeight\<close> equal to
  \<open>2^256 - 1\<close>, \<open>maxFee\<close> equal to 2010000, an empty \<open>hookData\<close> (\<^verbatim>\<open>0x\<close>, which reads as no
  byte), the 32-byte zero address as \<open>destinationCaller\<close>, the domain with name
  \<^verbatim>\<open>GatewayWallet\<close> and version \<^verbatim>\<open>1\<close>, and the two schemas \<open>TransferSpec\<close> and \<open>BurnIntent\<close>.
  Every intent that \<open>createBurnIntent\<close> builds has the zero address as
  \<open>destinationCaller\<close>, before canonicalization. \<open>TransferSpec\<close> has exactly the 14 fields
  of the claim, in its order, and \<open>BurnIntent\<close> exactly \<open>maxBlockHeight\<close>, \<open>maxFee\<close>, \<open>spec\<close>.
\<close>

theorem burn_intent_fixed_fields:
  "(\<exists>tr r. unifiedTransfer env options = Some (tr, r) \<and>
      (\<forall>td. SignTypedData td \<in> set tr \<longrightarrow>
         maxBlockHeight (message td) = 2 ^ 256 - 1 \<and> maxFee (message td) = 2010000 \<and>
         hookData (spec (message td)) = ''0x'' \<and>
         destinationCaller (spec (message td)) = ''0x'' @ replicate 64 CHR ''0'' \<and>
         typed_domain td = \<lparr>domain_name = ''GatewayWallet'', domain_version = ''1''\<rparr> \<and>
         primaryType td = ''BurnIntent'' \<and>
         types td = [(''TransferSpec'', TransferSpec), (''BurnIntent'', BurnIntent)])) \<and>
   (\<forall>s d v dep rcp rnd intent. createBurnIntent s d v dep rcp rnd = Inr intent \<longrightarrow>
      destinationCaller (spec intent) = ''0x0000000000000000000000000000000000000000'' \<and>
      hookData (spec intent) = ''0x'' \<and> maxBlockHeight intent = 2 ^ 256 - 1 \<and>
      maxFee intent = 2010000) \<and>
   getBytes ''0x'' = Inr [] \<and>
   map fst TransferSpec =
     [''version'', ''sourceDomain'', ''destinationDomain'', ''sourceContract'',
      ''destinationContract'', ''sourceToken'', ''destinationToken'', ''sourceDepositor'',
      ''destinationRecipient'', ''sourceSigner'', ''destinationCaller'', ''value'', ''salt'',
      ''hookData''] \<and>
   length TransferSpec = 14 \<and>
   map fst BurnIntent = [''maxBlockHeight'', ''maxFee'', ''spec''] \<and>
   length BurnIntent = 3"
proof -
  obtain tr r where u: "unifiedTransfer env options = Some (tr, r)"
    using unifiedTransfer_returns by blast
  have "maxBlockHeight (message td) = 2 ^ 256 - 1 \<and> maxFee (message td) = 2010000 \<and>
         hookData (spec (message td)) = ''0x'' \<and>
         destinationCaller (spec (message td)) = ''0x'' @ replicate 64 CHR ''0'' \<and>
         typed_domain td = \<lparr>domain_name = ''GatewayWallet'', domain_version = ''1''\<rparr> \<and>
         primaryType td = ''BurnIntent'' \<and>
         types td = [(''TransferSpec'', TransferSpec), (''BurnIntent'', BurnIntent)]"
    if "SignTypedData td \<in> set tr" for td
  proof -
    from unifiedTransfer_signed [OF u that] obtain a where
      t: "typedDataOf env (sourceChainOf options) (destChainOf options)
             (Math_round (a * 10 ^ USDC_DECIMALS)) = Inr td"
      by blast
    from typedDataOf_fields [OF t] show ?thesis
      by (simp add: MaxUint256_def MAX_FEE_def canonical_ZeroAddress domain_def)
  qed
  with u have 1: "\<exists>tr r. unifiedTransfer env options = Some (tr, r) \<and>
      (\<forall>td. SignTypedData td \<in> set tr \<longrightarrow>
         maxBlockHeight (message td) = 2 ^ 256 - 1 \<and> maxFee (message td) = 2010000 \<and>
         hookData (spec (message td)) = ''0x'' \<and>
         destinationCaller (spec (message td)) = ''0x'' @ replicate 64 CHR ''0'' \<and>
         typed_domain td = \<lparr>domain_name = ''GatewayWallet'', domain_version = ''1''\<rparr> \<and>
         primaryType td = ''BurnIntent'' \<and>
         types td = [(''TransferSpec'', TransferSpec), (''BurnIntent'', BurnIntent)])"
    by blast
  have 2: "\<forall>s d v dep rcp rnd intent. createBurnIntent s d v dep rcp rnd = Inr intent \<longrightarrow>
      destinationCaller (spec intent) = ''0x0000000000000000000000000000000000000000'' \<and>
      hookData (spec intent) = ''0x'' \<and> maxBlockHeight intent = 2 ^ 256 - 1 \<and>
      maxFee intent = 2010000"
    by (auto simp add: createBurnIntent_def ZeroAddress_def MaxUint256_def MAX_FEE_def
        split: sum.splits)
  have 3: "getBytes ''0x'' = Inr []" by (simp add: getBytes_def)
  have 4: "map fst TransferSpec =
     [''version'', ''sourceDomain'', ''destinationDomain'', ''sourceContract'',
      ''destinationContract'', ''sourceToken'', ''destinationToken'', ''sourceDepositor'',
      ''destinationRecipient'', ''sourceSigner'', ''destinationCaller'', ''value'', ''salt'',
      ''hookData'']" "length TransferSpec = 14"
    "map fst BurnIntent = [''maxBlockHeight'', ''maxFee'', ''spec'']" "length BurnIntent = 3"
    by (simp_all add: TransferSpec_def BurnIntent_def)
  show ?thesis using 1 2 3 4 by blast
qed

theorem burn_intent_fixed_fields_witness:
  "\<exists>tr r td. unifiedTransfer example_env
       \<lparr>isEvmToArc = True, chainToTransfer = ''baseSepolia'', amount = Fin 1\<rparr> = Some (tr, r) \<and>
     SignTypedData td \<in> set tr \<and>
     maxBlockHeight (message td) = 2 ^ 256 - 1 \<and> maxFee (message td) = 2010000 \<and>
     hookData (spec (message td)) = ''0x'' \<and>
     destinationCaller (spec (message td)) =
       ''0x0000000000000000000000000000000000000000000000000000000000000000'' \<and>
     typed_domain td = \<lparr>domain_name = ''GatewayWallet'', domain_version = ''1''\<rparr>"
proof -
  let ?o = "\<lparr>isEvmToArc = True, chainToTransfer = ''baseSepolia'', amount = Fin 1\<rparr>"
  from example_env_progress obtain tr r td where
    u: "unifiedTransfer example_env ?o = Some (tr, r)" and s: "SignTypedData td \<in> set tr"
    by blast
  from burn_intent_fixed_fields [of example_env ?o, THEN conjunct1] u s
  have "maxBlockHeight (message td) = 2 ^ 256 - 1 \<and> maxFee (message td) = 2010000 \<and>
     hookData (spec (message td)) = ''0x'' \<and>
     destinationCaller (spec (message td)) = ''0x'' @ replicate 64 CHR ''0'' \<and>
     typed_domain td = \<lparr>domain_name = ''GatewayWallet'', domain_version = ''1''\<rparr>"
    by auto
  then have "maxBlockHeight (message td) = 2 ^ 256 - 1 \<and> maxFee (message td) = 2010000 \<and>
     hookData (spec (message td)) = ''0x'' \<and>
     destinationCaller (spec (message td)) =
       ''0x0000000000000000000000000000000000000000000000000000000000000000'' \<and>
     typed_domain td = \<lparr>domain_name = ''GatewayWallet'', domain_version = ''1''\<rparr>"
    by (simp add: numeral_eq_Suc)
  with u s show ?thesis by blast
qed

end
